theory Spec2Isabelle
  imports Main "HOL-Library.AList"
begin

section \<open>Strings and numbers as the TypeScript code uses them\<close>

text \<open>
  JavaScript strings are modelled as \<open>string\<close> (lists of 8-bit characters, that is code
  units below 256). A JavaScript number is an integer or \<open>NaN\<close>; fractional values and
  integers beyond the exactly representable range are outside the model. An optional field
  (\<open>field?: T\<close>) is an \<open>option\<close>; \<open>undefined\<close> is \<open>None\<close>.
\<close>

datatype number = Number int | NaN

abbreviation sq :: char where "sq \<equiv> CHR 0x27"
abbreviation dq :: char where "dq \<equiv> CHR 0x22"
abbreviation bsl :: char where "bsl \<equiv> CHR 0x5C"
abbreviation spc :: char where "spc \<equiv> CHR 0x20"
abbreviation nl :: char where "nl \<equiv> CHR 0x0A"

text \<open>The white space of \<open>String.prototype.trim\<close> and of the regular expression class
  \<open>\s\<close>, over 8-bit code units: TAB, LF, VT, FF, CR, SPACE, NBSP.\<close>

definition isWhitespace :: "char \<Rightarrow> bool" where
  "isWhitespace c = (c = CHR 0x09 \<or> c = CHR 0x0A \<or> c = CHR 0x0B \<or> c = CHR 0x0C \<or>
     c = CHR 0x0D \<or> c = CHR 0x20 \<or> c = CHR 0xA0)"

text \<open>\<open>s.startsWith(p)\<close> and \<open>s.includes(p)\<close>.\<close>

fun startsWith :: "string \<Rightarrow> string \<Rightarrow> bool" where
  "startsWith s [] = True"
| "startsWith [] (p # ps) = False"
| "startsWith (c # cs) (p # ps) = (c = p \<and> startsWith cs ps)"

fun includesStr :: "string \<Rightarrow> string \<Rightarrow> bool" where
  "includesStr [] p = (p = [])"
| "includesStr (c # cs) p = (startsWith (c # cs) p \<or> includesStr cs p)"

text \<open>\<open>s.split(d)\<close> for a one-character separator: the empty string splits into one
  empty piece.\<close>

fun splitOn :: "char \<Rightarrow> string \<Rightarrow> string list" where
  "splitOn d [] = [[]]"
| "splitOn d (c # cs) =
     (if c = d then [] # splitOn d cs
      else (case splitOn d cs of [] \<Rightarrow> [[c]] | w # ws \<Rightarrow> (c # w) # ws))"

definition trim :: "string \<Rightarrow> string" where
  "trim s = rev (dropWhile isWhitespace (rev (dropWhile isWhitespace s)))"

text \<open>\<open>xs.join(sep)\<close>.\<close>

fun joinWith :: "string \<Rightarrow> string list \<Rightarrow> string" where
  "joinWith sep [] = []"
| "joinWith sep [x] = x"
| "joinWith sep (x # y # ys) = x @ sep @ joinWith sep (y # ys)"

text \<open>Decimal rendering of a number in a template literal (\<open>`${n}`\<close>).\<close>

definition digitChar :: "nat \<Rightarrow> char" where
  "digitChar d = ''0123456789'' ! d"

function natToString :: "nat \<Rightarrow> string" where
  "natToString n = (if n < 10 then [digitChar n] else natToString (n div 10) @ [digitChar (n mod 10)])"
  by pat_completeness auto
termination
  by (relation "measure (\<lambda>n. n)") auto

declare natToString.simps [simp del]

definition numberToString :: "number \<Rightarrow> string" where
  "numberToString x =
     (case x of NaN \<Rightarrow> ''NaN''
      | Number i \<Rightarrow> (if i < 0 then CHR ''-'' # natToString (nat (- i)) else natToString (nat i)))"

text \<open>Truthiness of the values the code tests in \<open>if (x)\<close>.\<close>

definition truthyStr :: "string option \<Rightarrow> bool" where
  "truthyStr v = (case v of None \<Rightarrow> False | Some s \<Rightarrow> s \<noteq> [])"

definition truthyNum :: "number option \<Rightarrow> bool" where
  "truthyNum v = (case v of None \<Rightarrow> False | Some NaN \<Rightarrow> False | Some (Number i) \<Rightarrow> i \<noteq> 0)"

definition truthyBool :: "bool option \<Rightarrow> bool" where
  "truthyBool v = (case v of None \<Rightarrow> False | Some b \<Rightarrow> b)"

text \<open>\<open>parseInt(s, 10)\<close>: leading white space is skipped, one sign is read, then the
  longest run of decimal digits; no digit gives \<open>NaN\<close>. \<open>parseInt(undefined, 10)\<close>
  reads the string \<open>undefined\<close> and is \<open>NaN\<close>.\<close>

definition isDigit :: "char \<Rightarrow> bool" where
  "isDigit c = (c \<in> set ''0123456789'')"

definition digitsToNat :: "string \<Rightarrow> nat" where
  "digitsToNat ds = foldl (\<lambda>acc c. 10 * acc + (of_char c - 48)) 0 ds"

definition parseInt :: "string option \<Rightarrow> number" where
  "parseInt v =
     (case v of None \<Rightarrow> NaN
      | Some s \<Rightarrow>
          (let t = dropWhile isWhitespace s;
               neg = (case t of [] \<Rightarrow> False | c # _ \<Rightarrow> c = CHR ''-'');
               u = (case t of [] \<Rightarrow> [] | c # r \<Rightarrow> if c = CHR ''-'' \<or> c = CHR ''+'' then r else t);
               ds = takeWhile isDigit u
           in if ds = [] then NaN
              else Number (if neg then - int (digitsToNat ds) else int (digitsToNat ds))))"

section \<open>Sanitizer\<close>

text \<open>\<open>value.replace(/'/g, "\\'")\<close>: every single quote becomes backslash, quote.\<close>

fun escapeQuotes :: "string \<Rightarrow> string" where
  "escapeQuotes [] = []"
| "escapeQuotes (c # cs) = (if c = sq then bsl # sq # escapeQuotes cs else c # escapeQuotes cs)"

definition sanitizeConfigValue :: "string \<Rightarrow> string" where
  "sanitizeConfigValue v =
     (if includesStr v [spc] \<or> includesStr v [sq] then [sq] @ escapeQuotes v @ [sq] else v)"

lemma includes_single: "includesStr s [c] = (c \<in> set s)"
  by (induction s) (auto elim: startsWith.elims)

lemma escapeQuotes_concat:
  "escapeQuotes v = concat (map (\<lambda>c. if c = sq then [bsl, sq] else [c]) v)"
  by (induction v) simp_all


text \<open>
  Claim C7, as far as the code goes. \<open>sanitizeConfigValue\<close> is a total function of its
  argument alone. A value that contains a space character (U+0020) or a single quote is
  returned between single quotes with every inner single quote preceded by a backslash;
  every other value is returned unchanged. The three sample values of the specification
  come out as stated there.
\<close>

theorem sanitizeConfigValue_spec:
  "sanitizeConfigValue v =
     (if spc \<in> set v \<or> sq \<in> set v
      then [sq] @ concat (map (\<lambda>c. if c = sq then [bsl, sq] else [c]) v) @ [sq]
      else v)
   \<and> sanitizeConfigValue ''simple'' = ''simple''
   \<and> sanitizeConfigValue ''has space'' = [sq] @ ''has space'' @ [sq]
   \<and> sanitizeConfigValue ''it's'' = [sq] @ ''it'' @ [bsl, sq] @ ''s'' @ [sq]"
  by (simp add: sanitizeConfigValue_def includes_single escapeQuotes_concat)

theorem sanitizeConfigValue_spec_witness:
  "sanitizeConfigValue ''LAN Interface'' = [sq] @ ''LAN Interface'' @ [sq]"
  using sanitizeConfigValue_spec [of "''LAN Interface''"] by simp

text \<open>
  Claim C7 as the specification words it (any white space triggers the quoting) fails: a
  value with a TAB and no space is white space for \<open>trim\<close> and \<open>\s\<close>, and is returned
  unquoted.
\<close>

theorem sanitizeConfigValue_tab_counterexample:
  "isWhitespace (CHR 0x09)
   \<and> sanitizeConfigValue [CHR ''a'', CHR 0x09, CHR ''b''] = [CHR ''a'', CHR 0x09, CHR ''b'']
   \<and> sanitizeConfigValue [CHR ''a'', CHR 0x09, CHR ''b'']
       \<noteq> [sq] @ [CHR ''a'', CHR 0x09, CHR ''b''] @ [sq]"
  by (simp add: sanitizeConfigValue_def isWhitespace_def)

section \<open>Domain models (shared types)\<close>

text \<open>
  The interfaces of the shared types, one record each. Field names carry a prefix for
  the record they belong to, since several interfaces have fields \<open>name\<close>,
  \<open>description\<close>, \<open>number\<close>. A field typed by a union of string literals
  (\<open>InterfaceType\<close>, \<open>BondMode\<close>, \<open>FirewallAction\<close>, ...) is a string: the types are
  erased at run time, and the parser casts whatever key it finds.
\<close>

record AddressConfig =
  ipv4 :: "string list"
  ipv6 :: "string list"
  dhcp :: bool
  dhcpv6 :: bool

record VLANConfig =
  vlan_id :: number
  vlan_parentInterface :: string

record BondConfig =
  bond_mode :: string
  bond_members :: "string list"
  bond_primaryInterface :: "string option"
  bond_hashPolicy :: "string option"

record BridgeConfig =
  bridge_members :: "string list"
  bridge_stp :: bool
  bridge_aging :: "number option"
  bridge_maxAge :: "number option"

record NetworkInterface =
  if_name :: string
  if_type :: string
  if_description :: "string option"
  if_enabled :: bool
  if_mtu :: "number option"
  if_mac :: "string option"
  if_addresses :: AddressConfig
  if_vlan :: "VLANConfig option"
  if_bond :: "BondConfig option"
  if_bridge :: "BridgeConfig option"

record StaticRoute =
  route_network :: string
  route_nextHop :: "string option"
  route_interface :: "string option"
  route_distance :: "number option"
  route_description :: "string option"

record ZoneFirewall =
  zf_name :: "string option"
  zf_ipv6Name :: "string option"

record FirewallZone =
  zone_name :: string
  zone_description :: "string option"
  zone_defaultAction :: string
  zone_interfaces :: "string list"
  zone_from :: "(string \<times> ZoneFirewall) list"

record AddressGroup =
  grp_addressGroup :: "string option"
  grp_networkGroup :: "string option"
  grp_portGroup :: "string option"

record FirewallAddress =
  fa_address :: "string option"
  fa_port :: "string option"
  fa_group :: "AddressGroup option"

record RuleState =
  st_established :: "bool option"
  st_related :: "bool option"
  st_new :: "bool option"
  st_invalid :: "bool option"

record FirewallRule =
  fr_number :: number
  fr_action :: string
  fr_description :: "string option"
  fr_protocol :: "string option"
  fr_source :: "FirewallAddress option"
  fr_destination :: "FirewallAddress option"
  fr_state :: "RuleState option"
  fr_log :: "bool option"
  fr_disabled :: "bool option"

record FirewallRuleset =
  rs_name :: string
  rs_description :: "string option"
  rs_defaultAction :: string
  rs_enableDefaultLog :: "bool option"
  rs_rules :: "FirewallRule list"

record NATAddress =
  na_address :: "string option"
  na_port :: "string option"

record NATRule =
  nat_number :: number
  nat_type :: string
  nat_description :: "string option"
  nat_disabled :: "bool option"
  nat_outboundInterface :: "string option"
  nat_inboundInterface :: "string option"
  nat_source :: "NATAddress option"
  nat_destination :: "NATAddress option"
  nat_translation :: "NATAddress option"
  nat_protocol :: "string option"

record IPSecAuthentication =
  auth_mode :: string
  auth_preSharedSecret :: "string option"
  auth_remoteId :: "string option"
  auth_localId :: "string option"

record IKEProposal =
  ike_encryption :: string
  ike_hash :: string
  ike_dhGroup :: string

record IKEGroup =
  ikeg_name :: string
  ikeg_proposal :: "IKEProposal list"
  ikeg_lifeTime :: "number option"

record ESPProposal =
  esp_encryption :: string
  esp_hash :: string

record ESPGroup =
  espg_name :: string
  espg_proposal :: "ESPProposal list"
  espg_lifeTime :: "number option"
  espg_pfs :: "string option"

record IPSecTunnel =
  tun_id :: number
  tun_localSubnet :: string
  tun_remoteSubnet :: string
  tun_protocol :: "string option"

record IPSecSite =
  site_name :: string
  site_authMode :: string
  site_description :: "string option"
  site_localAddress :: string
  site_remoteAddress :: string
  site_authentication :: IPSecAuthentication
  site_ikeGroup :: IKEGroup
  site_espGroup :: ESPGroup
  site_tunnels :: "IPSecTunnel list"

record UserAuthentication =
  ua_encryptedPassword :: "string option"
  ua_plaintextPassword :: "string option"
  ua_publicKeys :: "string list option"

record SystemUser =
  user_name :: string
  user_fullName :: "string option"
  user_authentication :: UserAuthentication
  user_level :: "string option"

record NTPConfig =
  ntp_servers :: "string list"
  ntp_allowClients :: "string list option"

record LoginConfig =
  login_users :: "SystemUser list"

text \<open>\<open>buildSystemCommands\<close> takes a \<open>Partial<SystemConfig>\<close>: every field optional.\<close>

record SystemConfig =
  sys_hostName :: "string option"
  sys_domainName :: "string option"
  sys_timeZone :: "string option"
  sys_nameServer :: "string list option"
  sys_ntp :: "NTPConfig option"
  sys_login :: "LoginConfig option"

section \<open>Command Builder\<close>

text \<open>
  Each \<open>if (x) commands.push(...)\<close> of the builder is a piece of the result list that is
  empty when \<open>x\<close> is falsy: an absent field, the empty string, the number 0 or \<open>NaN\<close>,
  \<open>false\<close>. An object or an array is always truthy.
\<close>

definition whenStr :: "string option \<Rightarrow> (string \<Rightarrow> string list) \<Rightarrow> string list" where
  "whenStr v f = (case v of None \<Rightarrow> [] | Some s \<Rightarrow> if s = [] then [] else f s)"

definition whenNum :: "number option \<Rightarrow> (number \<Rightarrow> string list) \<Rightarrow> string list" where
  "whenNum v f = (if truthyNum v then (case v of None \<Rightarrow> [] | Some n \<Rightarrow> f n) else [])"

definition whenBool :: "bool option \<Rightarrow> string list \<Rightarrow> string list" where
  "whenBool v xs = (if truthyBool v then xs else [])"

definition whenObj :: "'a option \<Rightarrow> ('a \<Rightarrow> string list) \<Rightarrow> string list" where
  "whenObj v f = (case v of None \<Rightarrow> [] | Some x \<Rightarrow> f x)"

definition interfaceBasePath :: "NetworkInterface \<Rightarrow> string" where
  "interfaceBasePath iface = ''interfaces '' @ if_type iface @ '' '' @ if_name iface"

definition buildInterfaceCommands :: "NetworkInterface \<Rightarrow> string list" where
  "buildInterfaceCommands iface =
     (let basePath = interfaceBasePath iface in
        whenStr (if_description iface)
          (\<lambda>d. [''set '' @ basePath @ '' description '' @ sanitizeConfigValue d])
      @ whenNum (if_mtu iface) (\<lambda>n. [''set '' @ basePath @ '' mtu '' @ numberToString n])
      @ whenStr (if_mac iface) (\<lambda>m. [''set '' @ basePath @ '' mac '' @ m])
      @ map (\<lambda>addr. ''set '' @ basePath @ '' address '' @ sanitizeConfigValue addr)
          (ipv4 (if_addresses iface))
      @ map (\<lambda>addr. ''set '' @ basePath @ '' address '' @ sanitizeConfigValue addr)
          (ipv6 (if_addresses iface))
      @ (if dhcp (if_addresses iface) then [''set '' @ basePath @ '' address dhcp''] else [])
      @ (if dhcpv6 (if_addresses iface) then [''set '' @ basePath @ '' address dhcpv6''] else [])
      @ (if if_type iface = ''vlan''
         then whenObj (if_vlan iface)
                (\<lambda>v. [''set '' @ basePath @ '' vlan id '' @ numberToString (vlan_id v)])
         else [])
      @ (if if_type iface = ''bond''
         then whenObj (if_bond iface)
                (\<lambda>b. [''set '' @ basePath @ '' mode '' @ bond_mode b]
                   @ map (\<lambda>member. ''set '' @ basePath @ '' member interface '' @ member)
                       (bond_members b)
                   @ whenStr (bond_primaryInterface b)
                       (\<lambda>x. [''set '' @ basePath @ '' primary '' @ x])
                   @ whenStr (bond_hashPolicy b)
                       (\<lambda>x. [''set '' @ basePath @ '' hash-policy '' @ x]))
         else [])
      @ (if if_type iface = ''bridge''
         then whenObj (if_bridge iface)
                (\<lambda>b. map (\<lambda>member. ''set '' @ basePath @ '' member interface '' @ member)
                       (bridge_members b)
                   @ (if bridge_stp b then [''set '' @ basePath @ '' stp''] else [])
                   @ whenNum (bridge_aging b)
                       (\<lambda>n. [''set '' @ basePath @ '' aging '' @ numberToString n])
                   @ whenNum (bridge_maxAge b)
                       (\<lambda>n. [''set '' @ basePath @ '' max-age '' @ numberToString n]))
         else [])
      @ [if if_enabled iface then ''delete '' @ basePath @ '' disable''
         else ''set '' @ basePath @ '' disable''])"

definition buildStaticRouteCommands :: "StaticRoute \<Rightarrow> string list" where
  "buildStaticRouteCommands route =
     (let basePath = ''protocols static route '' @ route_network route in
        (if truthyStr (route_nextHop route)
         then whenStr (route_nextHop route)
                (\<lambda>h. let hopPath = basePath @ '' next-hop '' @ h in
                   [''set '' @ hopPath]
                   @ whenNum (route_distance route)
                       (\<lambda>n. [''set '' @ hopPath @ '' distance '' @ numberToString n]))
         else whenStr (route_interface route)
                (\<lambda>i. let ifPath = basePath @ '' interface '' @ i in
                   [''set '' @ ifPath]
                   @ whenNum (route_distance route)
                       (\<lambda>n. [''set '' @ ifPath @ '' distance '' @ numberToString n])))
      @ whenStr (route_description route)
          (\<lambda>d. [''set '' @ basePath @ '' description '' @ sanitizeConfigValue d]))"

text \<open>
  A JavaScript object used as a dictionary is an association list in insertion order, with
  distinct keys. \<open>Object.keys\<close> and \<open>Object.entries\<close> list the own properties that are
  array indices (canonical decimal numerals below \<open>2^32 - 1\<close>) first, in ascending numeric
  order, and then the other string keys in insertion order.
\<close>

definition isArrayIndex :: "string \<Rightarrow> bool" where
  "isArrayIndex s =
     (case s of [] \<Rightarrow> False
      | c # cs \<Rightarrow> list_all isDigit s \<and> (if c = CHR ''0'' then cs = [] else True)
          \<and> digitsToNat s < 4294967295)"

definition ownEntries :: "(string \<times> 'a) list \<Rightarrow> (string \<times> 'a) list" where
  "ownEntries kvs =
     sort_key (\<lambda>kv. digitsToNat (fst kv)) (filter (\<lambda>kv. isArrayIndex (fst kv)) kvs)
     @ filter (\<lambda>kv. \<not> isArrayIndex (fst kv)) kvs"

definition buildFirewallZoneCommands :: "FirewallZone \<Rightarrow> string list" where
  "buildFirewallZoneCommands zone =
     (let basePath = ''zone-policy zone '' @ zone_name zone in
        whenStr (zone_description zone)
          (\<lambda>d. [''set '' @ basePath @ '' description '' @ sanitizeConfigValue d])
      @ [''set '' @ basePath @ '' default-action '' @ zone_defaultAction zone]
      @ map (\<lambda>iface. ''set '' @ basePath @ '' interface '' @ iface) (zone_interfaces zone)
      @ concat (map (\<lambda>(fromZone, config).
            let fromPath = basePath @ '' from '' @ fromZone in
              whenStr (zf_name config) (\<lambda>n. [''set '' @ fromPath @ '' firewall name '' @ n])
            @ whenStr (zf_ipv6Name config)
                (\<lambda>n. [''set '' @ fromPath @ '' firewall ipv6-name '' @ n]))
          (ownEntries (zone_from zone))))"

definition firewallRuleBasePath :: "string \<Rightarrow> FirewallRule \<Rightarrow> string" where
  "firewallRuleBasePath rulesetName rule =
     ''firewall name '' @ rulesetName @ '' rule '' @ numberToString (fr_number rule)"

definition buildFirewallRuleCommands :: "string \<Rightarrow> FirewallRule \<Rightarrow> string list" where
  "buildFirewallRuleCommands rulesetName rule =
     (let basePath = firewallRuleBasePath rulesetName rule in
        [''set '' @ basePath @ '' action '' @ fr_action rule]
      @ whenStr (fr_description rule)
          (\<lambda>d. [''set '' @ basePath @ '' description '' @ sanitizeConfigValue d])
      @ whenStr (fr_protocol rule) (\<lambda>x. [''set '' @ basePath @ '' protocol '' @ x])
      @ whenObj (fr_source rule)
          (\<lambda>src.
              whenStr (fa_address src) (\<lambda>x. [''set '' @ basePath @ '' source address '' @ x])
            @ whenStr (fa_port src) (\<lambda>x. [''set '' @ basePath @ '' source port '' @ x])
            @ whenObj (fa_group src) (\<lambda>g. whenStr (grp_addressGroup g)
                (\<lambda>x. [''set '' @ basePath @ '' source group address-group '' @ x]))
            @ whenObj (fa_group src) (\<lambda>g. whenStr (grp_networkGroup g)
                (\<lambda>x. [''set '' @ basePath @ '' source group network-group '' @ x])))
      @ whenObj (fr_destination rule)
          (\<lambda>dst.
              whenStr (fa_address dst)
                (\<lambda>x. [''set '' @ basePath @ '' destination address '' @ x])
            @ whenStr (fa_port dst) (\<lambda>x. [''set '' @ basePath @ '' destination port '' @ x])
            @ whenObj (fa_group dst) (\<lambda>g. whenStr (grp_addressGroup g)
                (\<lambda>x. [''set '' @ basePath @ '' destination group address-group '' @ x]))
            @ whenObj (fa_group dst) (\<lambda>g. whenStr (grp_portGroup g)
                (\<lambda>x. [''set '' @ basePath @ '' destination group port-group '' @ x])))
      @ whenObj (fr_state rule)
          (\<lambda>st.
              whenBool (st_established st) [''set '' @ basePath @ '' state established enable'']
            @ whenBool (st_related st) [''set '' @ basePath @ '' state related enable'']
            @ whenBool (st_new st) [''set '' @ basePath @ '' state new enable'']
            @ whenBool (st_invalid st) [''set '' @ basePath @ '' state invalid enable''])
      @ whenBool (fr_log rule) [''set '' @ basePath @ '' log enable'']
      @ whenBool (fr_disabled rule) [''set '' @ basePath @ '' disable''])"

definition buildFirewallRulesetCommands :: "FirewallRuleset \<Rightarrow> string list" where
  "buildFirewallRulesetCommands ruleset =
     (let basePath = ''firewall name '' @ rs_name ruleset in
        whenStr (rs_description ruleset)
          (\<lambda>d. [''set '' @ basePath @ '' description '' @ sanitizeConfigValue d])
      @ [''set '' @ basePath @ '' default-action '' @ rs_defaultAction ruleset]
      @ whenBool (rs_enableDefaultLog ruleset) [''set '' @ basePath @ '' enable-default-log'']
      @ concat (map (buildFirewallRuleCommands (rs_name ruleset)) (rs_rules ruleset)))"

definition natRuleBasePath :: "NATRule \<Rightarrow> string" where
  "natRuleBasePath rule = ''nat '' @ nat_type rule @ '' rule '' @ numberToString (nat_number rule)"

definition buildNATRuleCommands :: "NATRule \<Rightarrow> string list" where
  "buildNATRuleCommands rule =
     (let basePath = natRuleBasePath rule in
        whenStr (nat_description rule)
          (\<lambda>d. [''set '' @ basePath @ '' description '' @ sanitizeConfigValue d])
      @ (if nat_type rule = ''source''
         then whenStr (nat_outboundInterface rule)
                (\<lambda>x. [''set '' @ basePath @ '' outbound-interface '' @ x])
         else [])
      @ (if nat_type rule = ''destination''
         then whenStr (nat_inboundInterface rule)
                (\<lambda>x. [''set '' @ basePath @ '' inbound-interface '' @ x])
         else [])
      @ whenStr (nat_protocol rule) (\<lambda>x. [''set '' @ basePath @ '' protocol '' @ x])
      @ whenObj (nat_source rule)
          (\<lambda>a. whenStr (na_address a) (\<lambda>x. [''set '' @ basePath @ '' source address '' @ x])
             @ whenStr (na_port a) (\<lambda>x. [''set '' @ basePath @ '' source port '' @ x]))
      @ whenObj (nat_destination rule)
          (\<lambda>a. whenStr (na_address a)
                 (\<lambda>x. [''set '' @ basePath @ '' destination address '' @ x])
             @ whenStr (na_port a) (\<lambda>x. [''set '' @ basePath @ '' destination port '' @ x]))
      @ whenObj (nat_translation rule)
          (\<lambda>a. whenStr (na_address a)
                 (\<lambda>x. [''set '' @ basePath @ '' translation address '' @ x])
             @ whenStr (na_port a) (\<lambda>x. [''set '' @ basePath @ '' translation port '' @ x]))
      @ whenBool (nat_disabled rule) [''set '' @ basePath @ '' disable''])"

definition buildIPSecCommands :: "IPSecSite \<Rightarrow> string list" where
  "buildIPSecCommands site =
     (let ikeGroupName = ikeg_name (site_ikeGroup site);
          ikeBasePath = ''vpn ipsec ike-group '' @ ikeGroupName;
          espGroupName = espg_name (site_espGroup site);
          espBasePath = ''vpn ipsec esp-group '' @ espGroupName;
          peerPath = ''vpn ipsec site-to-site peer '' @ site_remoteAddress site;
          auth = site_authentication site in
        concat (map (\<lambda>(index, proposal).
            let propPath = ikeBasePath @ '' proposal '' @ numberToString (Number (int index + 1)) in
              [''set '' @ propPath @ '' encryption '' @ ike_encryption proposal,
               ''set '' @ propPath @ '' hash '' @ ike_hash proposal,
               ''set '' @ propPath @ '' dh-group '' @ ike_dhGroup proposal])
          (enumerate 0 (ikeg_proposal (site_ikeGroup site))))
      @ whenNum (ikeg_lifeTime (site_ikeGroup site))
          (\<lambda>n. [''set '' @ ikeBasePath @ '' lifetime '' @ numberToString n])
      @ concat (map (\<lambda>(index, proposal).
            let propPath = espBasePath @ '' proposal '' @ numberToString (Number (int index + 1)) in
              [''set '' @ propPath @ '' encryption '' @ esp_encryption proposal,
               ''set '' @ propPath @ '' hash '' @ esp_hash proposal])
          (enumerate 0 (espg_proposal (site_espGroup site))))
      @ whenNum (espg_lifeTime (site_espGroup site))
          (\<lambda>n. [''set '' @ espBasePath @ '' lifetime '' @ numberToString n])
      @ whenStr (espg_pfs (site_espGroup site)) (\<lambda>x. [''set '' @ espBasePath @ '' pfs '' @ x])
      @ [''set '' @ peerPath @ '' authentication mode '' @ auth_mode auth]
      @ (if auth_mode auth = ''pre-shared-secret''
         then whenStr (auth_preSharedSecret auth)
                (\<lambda>x. [''set '' @ peerPath @ '' authentication pre-shared-secret ''
                        @ sanitizeConfigValue x])
         else [])
      @ whenStr (auth_remoteId auth)
          (\<lambda>x. [''set '' @ peerPath @ '' authentication remote-id '' @ sanitizeConfigValue x])
      @ whenStr (auth_localId auth)
          (\<lambda>x. [''set '' @ peerPath @ '' authentication local-id '' @ sanitizeConfigValue x])
      @ [''set '' @ peerPath @ '' ike-group '' @ ikeGroupName,
         ''set '' @ peerPath @ '' local-address '' @ site_localAddress site]
      @ whenStr (site_description site)
          (\<lambda>d. [''set '' @ peerPath @ '' description '' @ sanitizeConfigValue d])
      @ concat (map (\<lambda>tunnel.
            let tunnelPath = peerPath @ '' tunnel '' @ numberToString (tun_id tunnel) in
              [''set '' @ tunnelPath @ '' local prefix '' @ tun_localSubnet tunnel,
               ''set '' @ tunnelPath @ '' remote prefix '' @ tun_remoteSubnet tunnel,
               ''set '' @ tunnelPath @ '' esp-group '' @ espGroupName]
            @ whenStr (tun_protocol tunnel) (\<lambda>x. [''set '' @ tunnelPath @ '' protocol '' @ x]))
          (site_tunnels site)))"

definition buildUserCommands :: "SystemUser \<Rightarrow> string list" where
  "buildUserCommands user =
     (let basePath = ''system login user '' @ user_name user;
          auth = user_authentication user in
        whenStr (user_fullName user)
          (\<lambda>x. [''set '' @ basePath @ '' full-name '' @ sanitizeConfigValue x])
      @ whenStr (ua_plaintextPassword auth)
          (\<lambda>x. [''set '' @ basePath @ '' authentication plaintext-password ''
                  @ sanitizeConfigValue x])
      @ whenStr (ua_encryptedPassword auth)
          (\<lambda>x. [''set '' @ basePath @ '' authentication encrypted-password ''
                  @ sanitizeConfigValue x])
      @ whenObj (ua_publicKeys auth)
          (\<lambda>keys. concat (map (\<lambda>(index, key).
              [''set '' @ basePath @ '' authentication public-keys key-''
                 @ numberToString (Number (int index)) @ '' key '' @ sanitizeConfigValue key,
               ''set '' @ basePath @ '' authentication public-keys key-''
                 @ numberToString (Number (int index)) @ '' type ssh-rsa''])
            (enumerate 0 keys)))
      @ whenStr (user_level user) (\<lambda>x. [''set '' @ basePath @ '' level '' @ x]))"

definition buildSystemCommands :: "SystemConfig \<Rightarrow> string list" where
  "buildSystemCommands system =
     (  whenStr (sys_hostName system) (\<lambda>x. [''set system host-name '' @ sanitizeConfigValue x])
      @ whenStr (sys_domainName system)
          (\<lambda>x. [''set system domain-name '' @ sanitizeConfigValue x])
      @ whenStr (sys_timeZone system) (\<lambda>x. [''set system time-zone '' @ sanitizeConfigValue x])
      @ whenObj (sys_nameServer system) (map (\<lambda>ns. ''set system name-server '' @ ns))
      @ whenObj (sys_ntp system)
          (\<lambda>ntp. map (\<lambda>server. ''set system ntp server '' @ server) (ntp_servers ntp)
             @ whenObj (ntp_allowClients ntp)
                 (map (\<lambda>client. ''set system ntp allow-clients address '' @ client)))
      @ whenObj (sys_login system)
          (\<lambda>login. concat (map buildUserCommands (login_users login))))"

section \<open>Command Executor\<close>

text \<open>
  The errors the executor and the SSH client throw, with their message and payload:
  \<open>VyOSCommandError(message, command, output)\<close>, \<open>VyOSCommitError(message, output)\<close>,
  \<open>SSHConnectionError(message)\<close>.
\<close>

datatype exec_error =
    SSHConnectionError string
  | VyOSCommandError string string string
  | VyOSCommitError string string

fun errMessage :: "exec_error \<Rightarrow> string" where
  "errMessage (SSHConnectionError m) = m"
| "errMessage (VyOSCommandError m c out) = m"
| "errMessage (VyOSCommitError m out) = m"

text \<open>
  The SSH client is the executor's only collaborator. A call of \<open>shell(commands)\<close>
  hands one list of statements to an interactive channel and either resolves with the
  transcript or rejects. The client is modelled by the outcomes of its coming shell calls,
  in order, and the log of every statement list handed to it; a call with no outcome left
  rejects as a client that is not connected does.
\<close>

record SSHClient =
  outcomes :: "(exec_error + string) list"
  issued :: "string list list"

definition shell :: "SSHClient \<Rightarrow> string list \<Rightarrow> (exec_error + string) \<times> SSHClient" where
  "shell client commands =
     (case outcomes client of
        [] \<Rightarrow> (Inl (SSHConnectionError ''Not connected to SSH server''),
               client\<lparr>issued := issued client @ [commands]\<rparr>)
      | r # rs \<Rightarrow> (r, client\<lparr>outcomes := rs, issued := issued client @ [commands]\<rparr>))"

record ExecutionOptions =
  opt_commit :: "bool option"
  opt_save :: "bool option"
  opt_timeout :: "nat option"

text \<open>The regular expression \<open>/\[.*\]\s*ERROR/\<close>: an opening bracket, any characters but
  line terminators, a closing bracket, white space, \<open>ERROR\<close>.\<close>

definition afterBracket :: "string \<Rightarrow> bool" where
  "afterBracket s = startsWith (dropWhile isWhitespace s) ''ERROR''"

fun closeSearch :: "string \<Rightarrow> bool" where
  "closeSearch [] = False"
| "closeSearch (c # cs) =
     ((c = CHR '']'' \<and> afterBracket cs) \<or> (c \<noteq> CHR 0x0A \<and> c \<noteq> CHR 0x0D \<and> closeSearch cs))"

fun matchBracketError :: "string \<Rightarrow> bool" where
  "matchBracketError [] = False"
| "matchBracketError (c # cs) = ((c = CHR ''['' \<and> closeSearch cs) \<or> matchBracketError cs)"

definition isErrorLine :: "string \<Rightarrow> bool" where
  "isErrorLine trimmed =
     (includesStr trimmed ''Error:'' \<or> includesStr trimmed ''Invalid'' \<or>
      includesStr trimmed ''Failed'' \<or> includesStr trimmed ''Configuration path:'' \<or>
      matchBracketError trimmed)"

definition parseErrors :: "string \<Rightarrow> string list" where
  "parseErrors output = filter isErrorLine (map trim (splitOn nl output))"

definition failurePatterns :: "string list" where
  "failurePatterns =
     [''Commit failed'', ''Configuration commit aborted'', ''Pre-commit check failed'',
      ''Error: Configuration path'', ''Validation failed'']"

definition hasCommitFailed :: "string \<Rightarrow> bool" where
  "hasCommitFailed output = list_ex (\<lambda>pattern. includesStr output pattern) failurePatterns"

definition rollbackCommands :: "number \<Rightarrow> string list" where
  "rollbackCommands revision =
     [''configure'', ''rollback '' @ numberToString revision, ''commit'', ''save'', ''exit'']"

definition rollback :: "SSHClient \<Rightarrow> number \<Rightarrow> (exec_error + unit) \<times> SSHClient" where
  "rollback client revision =
     (case shell client (rollbackCommands revision) of
        (Inl e, client') \<Rightarrow> (Inl e, client')
      | (Inr output, client') \<Rightarrow>
          if hasCommitFailed output
          then (Inl (VyOSCommitError ''Rollback commit failed'' output), client')
          else (Inr (), client'))"

definition fullCommands :: "string list \<Rightarrow> bool \<Rightarrow> bool \<Rightarrow> string list" where
  "fullCommands commands commit save =
     [''configure''] @ commands @ (if commit then [''commit''] else [])
       @ (if save then [''save''] else []) @ [''exit'']"

definition checkOutput :: "string list \<Rightarrow> bool \<Rightarrow> string \<Rightarrow> exec_error + unit" where
  "checkOutput commands commit output =
     (let errors = parseErrors output in
      if errors \<noteq> []
      then Inl (VyOSCommandError (''Command execution failed: '' @ joinWith '', '' errors)
                  (joinWith [nl] commands) output)
      else if commit \<and> hasCommitFailed output
      then Inl (VyOSCommitError ''Commit failed'' output)
      else Inr ())"

definition executeWithRollback ::
    "SSHClient \<Rightarrow> string list \<Rightarrow> ExecutionOptions \<Rightarrow> (exec_error + unit) \<times> SSHClient" where
  "executeWithRollback client commands options =
     (let commit = (case opt_commit options of None \<Rightarrow> True | Some b \<Rightarrow> b);
          save = (case opt_save options of None \<Rightarrow> True | Some b \<Rightarrow> b);
          (r, client1) = shell client (fullCommands commands commit save);
          tried = (case r of Inl e \<Rightarrow> Inl e | Inr output \<Rightarrow> checkOutput commands commit output)
      in case tried of
           Inr u \<Rightarrow> (Inr (), client1)
         | Inl error \<Rightarrow>
             (case rollback client1 (Number 0) of
                (Inl rollbackError, client2) \<Rightarrow>
                  (Inl (VyOSCommandError
                         (''Command execution failed and rollback also failed: ''
                            @ errMessage rollbackError)
                         (joinWith [nl] commands) (errMessage error)), client2)
              | (Inr u, client2) \<Rightarrow> (Inl error, client2)))"

section \<open>Config Parser\<close>

text \<open>
  The tree that \<open>parse\<close> builds holds two kinds of values: \<open>true\<close> at the end of a
  statement (\<open>Leaf\<close>) and nested plain objects (\<open>Branch\<close>, the own properties in insertion
  order, keys distinct). Only own properties are modelled: a path segment that names a
  property inherited from \<open>Object.prototype\<close> (\<open>constructor\<close>, \<open>toString\<close>,
  \<open>__proto__\<close>, ...) is outside the model.
\<close>

datatype node = Leaf | Branch "(string \<times> node) list"

datatype js_error = TypeError

subsection \<open>parse and addToTree\<close>

text \<open>
  The character loop of \<open>addToTree\<close>: a single or double quote toggles \<open>inQuotes\<close> and is
  dropped, a space outside quotes ends the current part, every other character is appended
  to the current part; a non-empty last part is pushed after the loop.
\<close>

fun tokenize :: "string \<Rightarrow> string list \<Rightarrow> string \<Rightarrow> bool \<Rightarrow> string list" where
  "tokenize [] parts current inQuotes = (if current \<noteq> [] then parts @ [current] else parts)"
| "tokenize (c # cs) parts current inQuotes =
     (if c = sq \<or> c = dq then tokenize cs parts current (\<not> inQuotes)
      else if c = spc \<and> \<not> inQuotes
      then (if current \<noteq> [] then tokenize cs (parts @ [current]) [] inQuotes
            else tokenize cs parts current inQuotes)
      else tokenize cs parts (current @ [c]) inQuotes)"

definition pathParts :: "string \<Rightarrow> string list" where
  "pathParts path = tokenize path [] [] False"

text \<open>
  The tree-building half of \<open>addToTree\<close>, on the own properties of the object \<open>node\<close>
  points at. Assignment to a property keeps the key's place or appends a new key
  (\<open>AList.update\<close>).
  \<^item> No part at all: \<open>parts[parts.length - 1]\<close> is \<open>undefined\<close>, and the key
    \<open>"undefined"\<close> is set on the root.
  \<^item> A missing child is created as an empty object; an object child is entered.
  \<^item> A child that is \<open>true\<close> becomes \<open>node\<close>. If only the last part is left, the
    guard \<open>typeof node === 'object'\<close> skips the assignment and the tree is unchanged. If
    more parts are left, \<open>node[part] = {}\<close> assigns a property of a boolean, which throws
    a TypeError in strict mode (class bodies and modules are strict).
\<close>

fun addParts :: "(string \<times> node) list \<Rightarrow> string list \<Rightarrow> js_error + (string \<times> node) list" where
  "addParts obj [] = Inr (AList.update ''undefined'' Leaf obj)"
| "addParts obj [p] = Inr (AList.update p Leaf obj)"
| "addParts obj (p # q # ps) =
     (case map_of obj p of
        None \<Rightarrow>
          (case addParts [] (q # ps) of
             Inl e \<Rightarrow> Inl e
           | Inr child \<Rightarrow> Inr (AList.update p (Branch child) obj))
      | Some (Branch kids) \<Rightarrow>
          (case addParts kids (q # ps) of
             Inl e \<Rightarrow> Inl e
           | Inr child \<Rightarrow> Inr (AList.update p (Branch child) obj))
      | Some Leaf \<Rightarrow> (if ps = [] then Inr obj else Inl TypeError))"

definition addToTree :: "(string \<times> node) list \<Rightarrow> string \<Rightarrow> js_error + (string \<times> node) list" where
  "addToTree tree path = addParts tree (pathParts path)"

definition parseLine :: "(string \<times> node) list \<Rightarrow> string \<Rightarrow> js_error + (string \<times> node) list" where
  "parseLine tree line =
     (let trimmed = trim line in
      if trimmed = [] \<or> \<not> startsWith trimmed ''set '' then Inr tree
      else addToTree tree (drop 4 trimmed))"

fun parseLines :: "(string \<times> node) list \<Rightarrow> string list \<Rightarrow> js_error + (string \<times> node) list" where
  "parseLines tree [] = Inr tree"
| "parseLines tree (line # lines) =
     (case parseLine tree line of Inl e \<Rightarrow> Inl e | Inr tree' \<Rightarrow> parseLines tree' lines)"

definition parse :: "string \<Rightarrow> js_error + node" where
  "parse configText =
     (case parseLines [] (splitOn nl configText) of Inl e \<Rightarrow> Inl e | Inr tree \<Rightarrow> Inr (Branch tree))"

subsection \<open>Reading the tree\<close>

text \<open>\<open>x.k\<close> on a tree value (\<open>undefined\<close> on \<open>true\<close>), \<open>x?.k\<close> on a possibly
  undefined one, \<open>Object.keys\<close>, \<open>Object.entries\<close>, and \<open>Object.keys(x)[0]\<close>.\<close>

fun getProp :: "node \<Rightarrow> string \<Rightarrow> node option" where
  "getProp Leaf k = None"
| "getProp (Branch kvs) k = map_of kvs k"

definition getPropO :: "node option \<Rightarrow> string \<Rightarrow> node option" where
  "getPropO v k = (case v of None \<Rightarrow> None | Some x \<Rightarrow> getProp x k)"

fun objectEntries :: "node \<Rightarrow> (string \<times> node) list" where
  "objectEntries Leaf = []"
| "objectEntries (Branch kvs) = ownEntries kvs"

definition objectKeys :: "node \<Rightarrow> string list" where
  "objectKeys x = map fst (objectEntries x)"

definition firstKey :: "node \<Rightarrow> string option" where
  "firstKey x = (case objectKeys x of [] \<Rightarrow> None | k # _ \<Rightarrow> Some k)"

text \<open>\<open>Object.keys(x || {})\<close> and \<open>Object.keys(x || {})[0]\<close>.\<close>

definition keysO :: "node option \<Rightarrow> string list" where
  "keysO v = (case v of None \<Rightarrow> [] | Some x \<Rightarrow> objectKeys x)"

definition firstKeyO :: "node option \<Rightarrow> string option" where
  "firstKeyO v = (case v of None \<Rightarrow> None | Some x \<Rightarrow> firstKey x)"

text \<open>\<open>s || d\<close> for a possibly undefined string.\<close>

definition orDefault :: "string option \<Rightarrow> string \<Rightarrow> string" where
  "orDefault v d = (case v of None \<Rightarrow> d | Some s \<Rightarrow> if s = [] then d else s)"

subsection \<open>Interfaces\<close>

definition classifyAddress :: "AddressConfig \<Rightarrow> string \<Rightarrow> AddressConfig" where
  "classifyAddress a addr =
     (if addr = ''dhcp'' then a\<lparr>dhcp := True\<rparr>
      else if addr = ''dhcpv6'' then a\<lparr>dhcpv6 := True\<rparr>
      else if includesStr addr '':'' then a\<lparr>ipv6 := ipv6 a @ [addr]\<rparr>
      else a\<lparr>ipv4 := ipv4 a @ [addr]\<rparr>)"

definition parseAddresses :: "string list \<Rightarrow> AddressConfig" where
  "parseAddresses keys =
     foldl classifyAddress \<lparr>ipv4 = [], ipv6 = [], dhcp = False, dhcpv6 = False\<rparr> keys"

definition parseInterface :: "string \<Rightarrow> string \<Rightarrow> node \<Rightarrow> js_error + NetworkInterface" where
  "parseInterface name type config =
     Inr \<lparr>if_name = name, if_type = type,
       if_description =
         (case getProp config ''description'' of None \<Rightarrow> None
          | Some d \<Rightarrow> Some (orDefault (firstKey d) [])),
       if_enabled = (getProp config ''disable'' = None),
       if_mtu = (case getProp config ''mtu'' of None \<Rightarrow> None | Some m \<Rightarrow> Some (parseInt (firstKey m))),
       if_mac = (case getProp config ''mac'' of None \<Rightarrow> None | Some m \<Rightarrow> firstKey m),
       if_addresses = parseAddresses (keysO (getProp config ''address'')),
       if_vlan =
         (if type = ''vlan''
          then (case getProp config ''vlan'' of None \<Rightarrow> None
                | Some v \<Rightarrow>
                    Some \<lparr>vlan_id = parseInt (firstKeyO (getProp v ''id'')),
                          vlan_parentInterface =
                            (case splitOn CHR ''.'' name of [] \<Rightarrow> [] | w # _ \<Rightarrow> w)\<rparr>)
          else None),
       if_bond =
         (if type = ''bond''
          then Some \<lparr>bond_mode = orDefault (firstKeyO (getProp config ''mode'')) ''802.3ad'',
                 bond_members = keysO (getPropO (getProp config ''member'') ''interface''),
                 bond_primaryInterface =
                   (case getProp config ''primary'' of None \<Rightarrow> None | Some x \<Rightarrow> firstKey x),
                 bond_hashPolicy =
                   (case getProp config ''hash-policy'' of None \<Rightarrow> None | Some x \<Rightarrow> firstKey x)\<rparr>
          else None),
       if_bridge =
         (if type = ''bridge''
          then Some \<lparr>bridge_members = keysO (getPropO (getProp config ''member'') ''interface''),
                 bridge_stp = (getProp config ''stp'' \<noteq> None),
                 bridge_aging =
                   (case getProp config ''aging'' of None \<Rightarrow> None
                    | Some x \<Rightarrow> Some (parseInt (firstKey x))),
                 bridge_maxAge =
                   (case getProp config ''max-age'' of None \<Rightarrow> None
                    | Some x \<Rightarrow> Some (parseInt (firstKey x)))\<rparr>
          else None)\<rparr>"

text \<open>
  A \<open>forEach\<close> whose body is \<open>try { out.push(f(key, value)) } catch { log }\<close>: an element
  whose reconstruction throws is logged and left out. The element parser is a parameter, so
  that the loop is defined for every way an element can fail.
\<close>

definition collectParsed :: "(string \<Rightarrow> node \<Rightarrow> js_error + 'a) \<Rightarrow> 'a list \<Rightarrow> (string \<times> node) list \<Rightarrow> 'a list" where
  "collectParsed f out entries =
     foldl (\<lambda>acc kv. case f (fst kv) (snd kv) of Inl e \<Rightarrow> acc | Inr x \<Rightarrow> acc @ [x]) out entries"

definition parseInterfacesWith ::
    "(string \<Rightarrow> string \<Rightarrow> node \<Rightarrow> js_error + NetworkInterface) \<Rightarrow> node \<Rightarrow> NetworkInterface list" where
  "parseInterfacesWith parseOne config =
     (case getProp config ''interfaces'' of
        None \<Rightarrow> []
      | Some types \<Rightarrow>
          foldl (\<lambda>interfaces tv.
             case snd tv of
               Leaf \<Rightarrow> interfaces
             | Branch ifaces \<Rightarrow>
                 collectParsed (\<lambda>name. parseOne name (fst tv)) interfaces
                   (objectEntries (Branch ifaces)))
            [] (objectEntries types))"

definition parseInterfaces :: "node \<Rightarrow> NetworkInterface list" where
  "parseInterfaces config = parseInterfacesWith parseInterface config"

subsection \<open>Static routes\<close>

text \<open>The body of the \<open>try\<close> in \<open>parseStaticRoutes\<close>, for one \<open>[network, routeConfig]\<close>
  entry. The interface branch runs after the next-hop branch and overwrites the distance.\<close>

definition hopDistance :: "node \<Rightarrow> string \<Rightarrow> number option" where
  "hopDistance hops first =
     (case getPropO (getProp hops first) ''distance'' of
        None \<Rightarrow> None
      | Some d \<Rightarrow> Some (parseInt (firstKey d)))"

definition parseStaticRoute :: "string \<Rightarrow> node \<Rightarrow> js_error + StaticRoute" where
  "parseStaticRoute network routeConfig =
     (let nextHop = firstKeyO (getProp routeConfig ''next-hop'');
          hopDist = (case getProp routeConfig ''next-hop'' of
                       None \<Rightarrow> None
                     | Some hops \<Rightarrow>
                         (case firstKey hops of None \<Rightarrow> None | Some h \<Rightarrow> hopDistance hops h));
          iface = firstKeyO (getProp routeConfig ''interface'');
          ifDist = (case getProp routeConfig ''interface'' of
                      None \<Rightarrow> None
                    | Some ifs \<Rightarrow>
                        (case firstKey ifs of None \<Rightarrow> None | Some i \<Rightarrow> hopDistance ifs i))
      in Inr \<lparr>route_network = network, route_nextHop = nextHop, route_interface = iface,
               route_distance = (case ifDist of None \<Rightarrow> hopDist | Some d \<Rightarrow> Some d),
               route_description =
                 (case getProp routeConfig ''description'' of None \<Rightarrow> None
                  | Some d \<Rightarrow> firstKey d)\<rparr>)"

definition parseStaticRoutesWith ::
    "(string \<Rightarrow> node \<Rightarrow> js_error + StaticRoute) \<Rightarrow> node \<Rightarrow> StaticRoute list" where
  "parseStaticRoutesWith parseOne config =
     (case getPropO (getPropO (getProp config ''protocols'') ''static'') ''route'' of
        None \<Rightarrow> []
      | Some routes \<Rightarrow> collectParsed parseOne [] (objectEntries routes))"

definition parseStaticRoutes :: "node \<Rightarrow> StaticRoute list" where
  "parseStaticRoutes config = parseStaticRoutesWith parseStaticRoute config"

subsection \<open>Firewall zones and rulesets\<close>

definition parseFirewallZone :: "string \<Rightarrow> node \<Rightarrow> js_error + FirewallZone" where
  "parseFirewallZone name zoneConfig =
     Inr \<lparr>zone_name = name,
       zone_description =
         (case getProp zoneConfig ''description'' of None \<Rightarrow> None | Some d \<Rightarrow> firstKey d),
       zone_defaultAction = orDefault (firstKeyO (getProp zoneConfig ''default-action'')) ''drop'',
       zone_interfaces = keysO (getProp zoneConfig ''interface''),
       zone_from =
         (case getProp zoneConfig ''from'' of
            None \<Rightarrow> []
          | Some froms \<Rightarrow>
              foldl (\<lambda>from kv.
                 AList.update (fst kv)
                   \<lparr>zf_name = firstKeyO (getPropO (getProp (snd kv) ''firewall'') ''name''),
                    zf_ipv6Name = firstKeyO (getPropO (getProp (snd kv) ''firewall'') ''ipv6-name'')\<rparr>
                   from)
                [] (objectEntries froms))\<rparr>"

definition parseFirewallZonesWith ::
    "(string \<Rightarrow> node \<Rightarrow> js_error + FirewallZone) \<Rightarrow> node \<Rightarrow> FirewallZone list" where
  "parseFirewallZonesWith parseOne config =
     (case getPropO (getProp config ''zone-policy'') ''zone'' of
        None \<Rightarrow> []
      | Some zones \<Rightarrow> collectParsed parseOne [] (objectEntries zones))"

definition parseFirewallZones :: "node \<Rightarrow> FirewallZone list" where
  "parseFirewallZones config = parseFirewallZonesWith parseFirewallZone config"

definition parseFirewallAddress :: "node \<Rightarrow> FirewallAddress" where
  "parseFirewallAddress x =
     \<lparr>fa_address = (case getProp x ''address'' of None \<Rightarrow> None | Some a \<Rightarrow> firstKey a),
      fa_port = (case getProp x ''port'' of None \<Rightarrow> None | Some a \<Rightarrow> firstKey a),
      fa_group = None\<rparr>"

definition parseFirewallRule :: "number \<Rightarrow> node \<Rightarrow> js_error + FirewallRule" where
  "parseFirewallRule number config =
     Inr \<lparr>fr_number = number,
       fr_action = orDefault (firstKeyO (getProp config ''action'')) ''drop'',
       fr_description =
         (case getProp config ''description'' of None \<Rightarrow> None | Some d \<Rightarrow> firstKey d),
       fr_protocol =
         (case getProp config ''protocol'' of None \<Rightarrow> None | Some d \<Rightarrow> firstKey d),
       fr_source = map_option parseFirewallAddress (getProp config ''source''),
       fr_destination = map_option parseFirewallAddress (getProp config ''destination''),
       fr_state =
         (case getProp config ''state'' of
            None \<Rightarrow> None
          | Some st \<Rightarrow>
              Some \<lparr>st_established = Some (getProp st ''established'' \<noteq> None),
                    st_related = Some (getProp st ''related'' \<noteq> None),
                    st_new = Some (getProp st ''new'' \<noteq> None),
                    st_invalid = Some (getProp st ''invalid'' \<noteq> None)\<rparr>),
       fr_log = Some (getProp config ''log'' \<noteq> None),
       fr_disabled = Some (getProp config ''disable'' \<noteq> None)\<rparr>"

text \<open>The body of the outer \<open>try\<close> in \<open>parseFirewallRulesets\<close>, for one
  \<open>[name, rulesetConfig]\<close> entry; the rules are collected by an inner loop with its own
  \<open>try\<close>.\<close>

definition parseFirewallRulesetWith ::
    "(number \<Rightarrow> node \<Rightarrow> js_error + FirewallRule) \<Rightarrow> string \<Rightarrow> node \<Rightarrow> js_error + FirewallRuleset" where
  "parseFirewallRulesetWith parseRule name rulesetConfig =
     Inr \<lparr>rs_name = name,
       rs_description =
         (case getProp rulesetConfig ''description'' of None \<Rightarrow> None | Some d \<Rightarrow> firstKey d),
       rs_defaultAction = orDefault (firstKeyO (getProp rulesetConfig ''default-action'')) ''drop'',
       rs_enableDefaultLog = Some (getProp rulesetConfig ''enable-default-log'' \<noteq> None),
       rs_rules =
         (case getProp rulesetConfig ''rule'' of
            None \<Rightarrow> []
          | Some rules \<Rightarrow>
              collectParsed (\<lambda>number. parseRule (parseInt (Some number))) []
                (objectEntries rules))\<rparr>"

definition parseFirewallRulesetsWith ::
    "(string \<Rightarrow> node \<Rightarrow> js_error + FirewallRuleset) \<Rightarrow> node \<Rightarrow> FirewallRuleset list" where
  "parseFirewallRulesetsWith parseOne config =
     (case getPropO (getProp config ''firewall'') ''name'' of
        None \<Rightarrow> []
      | Some rulesets \<Rightarrow> collectParsed parseOne [] (objectEntries rulesets))"

definition parseFirewallRulesets :: "node \<Rightarrow> FirewallRuleset list" where
  "parseFirewallRulesets config =
     parseFirewallRulesetsWith (parseFirewallRulesetWith parseFirewallRule) config"

subsection \<open>NAT\<close>

definition parseNATAddress :: "node \<Rightarrow> NATAddress" where
  "parseNATAddress x =
     \<lparr>na_address = (case getProp x ''address'' of None \<Rightarrow> None | Some a \<Rightarrow> firstKey a),
      na_port = (case getProp x ''port'' of None \<Rightarrow> None | Some a \<Rightarrow> firstKey a)\<rparr>"

definition parseNATRule :: "string \<Rightarrow> number \<Rightarrow> node \<Rightarrow> js_error + NATRule" where
  "parseNATRule type number config =
     Inr \<lparr>nat_number = number, nat_type = type,
       nat_description =
         (case getProp config ''description'' of None \<Rightarrow> None | Some d \<Rightarrow> firstKey d),
       nat_disabled = Some (getProp config ''disable'' \<noteq> None),
       nat_outboundInterface =
         (case getProp config ''outbound-interface'' of None \<Rightarrow> None | Some d \<Rightarrow> firstKey d),
       nat_inboundInterface =
         (case getProp config ''inbound-interface'' of None \<Rightarrow> None | Some d \<Rightarrow> firstKey d),
       nat_source = map_option parseNATAddress (getProp config ''source''),
       nat_destination = map_option parseNATAddress (getProp config ''destination''),
       nat_translation = map_option parseNATAddress (getProp config ''translation''),
       nat_protocol =
         (case getProp config ''protocol'' of None \<Rightarrow> None | Some d \<Rightarrow> firstKey d)\<rparr>"

record NATRules =
  nat_sourceRules :: "NATRule list"
  nat_destinationRules :: "NATRule list"

definition parseNATRulesWith ::
    "(string \<Rightarrow> number \<Rightarrow> node \<Rightarrow> js_error + NATRule) \<Rightarrow> node \<Rightarrow> NATRules" where
  "parseNATRulesWith parseOne config =
     (case getProp config ''nat'' of
        None \<Rightarrow> \<lparr>nat_sourceRules = [], nat_destinationRules = []\<rparr>
      | Some natConfig \<Rightarrow>
          \<lparr>nat_sourceRules =
             (case getPropO (getProp natConfig ''source'') ''rule'' of
                None \<Rightarrow> []
              | Some rules \<Rightarrow>
                  collectParsed (\<lambda>number. parseOne ''source'' (parseInt (Some number))) []
                    (objectEntries rules)),
           nat_destinationRules =
             (case getPropO (getProp natConfig ''destination'') ''rule'' of
                None \<Rightarrow> []
              | Some rules \<Rightarrow>
                  collectParsed (\<lambda>number. parseOne ''destination'' (parseInt (Some number))) []
                    (objectEntries rules))\<rparr>)"

definition parseNATRules :: "node \<Rightarrow> NATRules" where
  "parseNATRules config = parseNATRulesWith parseNATRule config"

subsection \<open>IPsec and system\<close>

text \<open>The loop of \<open>parseIPSecSites\<close> logs a warning for every peer and pushes nothing.\<close>

definition parseIPSecSites :: "node \<Rightarrow> IPSecSite list" where
  "parseIPSecSites config =
     (case getPropO (getPropO (getPropO (getProp config ''vpn'') ''ipsec'') ''site-to-site'') ''peer'' of
        None \<Rightarrow> []
      | Some peers \<Rightarrow> foldl (\<lambda>sites kv. sites) [] (objectEntries peers))"

definition parseSystemConfig :: "node \<Rightarrow> SystemConfig" where
  "parseSystemConfig config =
     (case getProp config ''system'' of
        None \<Rightarrow>
          \<lparr>sys_hostName = None, sys_domainName = None, sys_timeZone = None,
           sys_nameServer = Some [],
           sys_ntp = Some \<lparr>ntp_servers = [], ntp_allowClients = None\<rparr>,
           sys_login = Some \<lparr>login_users = []\<rparr>\<rparr>
      | Some sysConfig \<Rightarrow>
          \<lparr>sys_hostName =
             (case getProp sysConfig ''host-name'' of None \<Rightarrow> None | Some x \<Rightarrow> firstKey x),
           sys_domainName =
             (case getProp sysConfig ''domain-name'' of None \<Rightarrow> None | Some x \<Rightarrow> firstKey x),
           sys_timeZone =
             (case getProp sysConfig ''time-zone'' of None \<Rightarrow> None | Some x \<Rightarrow> firstKey x),
           sys_nameServer = Some (keysO (getProp sysConfig ''name-server'')),
           sys_ntp =
             Some \<lparr>ntp_servers = keysO (getPropO (getProp sysConfig ''ntp'') ''server''),
                   ntp_allowClients = None\<rparr>,
           sys_login =
             Some \<lparr>login_users =
               map (\<lambda>kv. \<lparr>user_name = fst kv, user_fullName = None,
                             user_authentication =
                               \<lparr>ua_encryptedPassword = None, ua_plaintextPassword = None,
                                ua_publicKeys = None\<rparr>,
                             user_level = None\<rparr>)
                 (case getPropO (getProp sysConfig ''login'') ''user'' of
                    None \<Rightarrow> [] | Some users \<Rightarrow> objectEntries users)\<rparr>\<rparr>)"

section \<open>Properties\<close>

subsection \<open>Auxiliary facts\<close>

lemma natToString_0: "natToString 0 = ''0''"
  by (simp add: natToString.simps digitChar_def)

lemma numberToString_0: "numberToString (Number 0) = ''0''"
  by (simp add: numberToString_def natToString_0)

lemma natToString_10: "natToString 10 = ''10''"
  by (simp add: natToString.simps [of 10] natToString.simps [of "Suc 0"] digitChar_def)

lemma numberToString_10: "numberToString (Number 10) = ''10''"
  by (simp add: numberToString_def natToString_10)

lemma rollbackCommands_0:
  "rollbackCommands (Number 0) = [''configure'', ''rollback 0'', ''commit'', ''save'', ''exit'']"
  by (simp add: rollbackCommands_def numberToString_0)

lemma filter_whenStr:
  "(\<And>s. filter P (f s) = []) \<Longrightarrow> filter P (whenStr v f) = []"
  by (simp add: whenStr_def split: option.splits)

lemma filter_whenNum:
  assumes "\<And>s. filter P (f s) = []"
  shows "filter P (whenNum v f) = []"
proof (cases v)
  case None
  then show ?thesis by (simp add: whenNum_def truthyNum_def)
next
  case (Some n)
  have "filter P (f n) = []" by (rule assms)
  then show ?thesis by (cases "truthyNum (Some n)") (simp_all add: whenNum_def Some)
qed

lemma filter_whenObj:
  "(\<And>s. filter P (f s) = []) \<Longrightarrow> filter P (whenObj v f) = []"
  by (simp add: whenObj_def split: option.splits)

lemma filter_whenBool:
  "filter P xs = [] \<Longrightarrow> filter P (whenBool v xs) = []"
  by (simp add: whenBool_def)

lemma filter_map_none:
  "(\<And>x. \<not> P (f x)) \<Longrightarrow> filter P (map f xs) = []"
  by (induction xs) simp_all

lemmas filter_when = filter_whenStr filter_whenNum filter_whenObj filter_whenBool filter_map_none

subsection \<open>The end-to-end batch for interface eth1\<close>

definition eth1 :: NetworkInterface where
  "eth1 = \<lparr>if_name = ''eth1'', if_type = ''ethernet'', if_description = Some ''LAN Interface'',
     if_enabled = True, if_mtu = None, if_mac = None,
     if_addresses = \<lparr>ipv4 = [''192.168.1.1/24''], ipv6 = [], dhcp = False, dhcpv6 = False\<rparr>,
     if_vlan = None, if_bond = None, if_bridge = None\<rparr>"

definition commitAndSave :: ExecutionOptions where
  "commitAndSave = \<lparr>opt_commit = Some True, opt_save = Some True, opt_timeout = None\<rparr>"

lemma build_eth1:
  "buildInterfaceCommands eth1 =
   [''set interfaces ethernet eth1 description '' @ [sq] @ ''LAN Interface'' @ [sq],
    ''set interfaces ethernet eth1 address 192.168.1.1/24'',
    ''delete interfaces ethernet eth1 disable'']"
  by (simp add: buildInterfaceCommands_def eth1_def interfaceBasePath_def whenStr_def whenNum_def
      truthyNum_def whenObj_def sanitizeConfigValue_def)

lemma issued_execute:
  "issued (snd (executeWithRollback client commands options)) =
     issued client
     @ [fullCommands commands (case opt_commit options of None \<Rightarrow> True | Some b \<Rightarrow> b)
          (case opt_save options of None \<Rightarrow> True | Some b \<Rightarrow> b)]
     @ (case fst (executeWithRollback client commands options) of
          Inr u \<Rightarrow> [] | Inl e \<Rightarrow> [rollbackCommands (Number 0)])"
  by (auto simp: executeWithRollback_def shell_def rollback_def Let_def
      split: list.splits sum.splits prod.splits if_splits)

text \<open>
  Claim C2, as the code has it. For the interface eth1 of the specification's scenario the
  builder returns three statements in this order: the description (quoted, it has a
  space), the address (not quoted: \<open>192.168.1.1/24\<close> has neither a space nor a quote), and
  the \<open>delete ... disable\<close> toggle. Executing them with commit and save hands the shell
  exactly \<open>configure\<close>, the three statements, \<open>commit\<close>, \<open>save\<close>, \<open>exit\<close> as its first
  batch, whatever the client.
\<close>

theorem eth1_batch:
  "buildInterfaceCommands eth1 =
     [''set interfaces ethernet eth1 description '' @ [sq] @ ''LAN Interface'' @ [sq],
      ''set interfaces ethernet eth1 address 192.168.1.1/24'',
      ''delete interfaces ethernet eth1 disable'']
   \<and> take 1 (drop (length (issued client))
        (issued (snd (executeWithRollback client (buildInterfaceCommands eth1) commitAndSave)))) =
     [[''configure'',
       ''set interfaces ethernet eth1 description '' @ [sq] @ ''LAN Interface'' @ [sq],
       ''set interfaces ethernet eth1 address 192.168.1.1/24'',
       ''delete interfaces ethernet eth1 disable'',
       ''commit'', ''save'', ''exit'']]"
  by (simp add: issued_execute build_eth1 fullCommands_def commitAndSave_def)

theorem eth1_batch_witness:
  "issued (snd (executeWithRollback \<lparr>outcomes = [Inr ''vyos@vyos:~$ ''], issued = []\<rparr>
      (buildInterfaceCommands eth1) commitAndSave)) =
     [[''configure'',
       ''set interfaces ethernet eth1 description '' @ [sq] @ ''LAN Interface'' @ [sq],
       ''set interfaces ethernet eth1 address 192.168.1.1/24'',
       ''delete interfaces ethernet eth1 disable'',
       ''commit'', ''save'', ''exit'']]"
proof -
  let ?c = "\<lparr>outcomes = [Inr ''vyos@vyos:~$ ''], issued = []\<rparr>"
  have clean: "fst (executeWithRollback ?c (buildInterfaceCommands eth1) commitAndSave) = Inr ()"
    by (simp add: executeWithRollback_def shell_def checkOutput_def parseErrors_def trim_def
        isWhitespace_def isErrorLine_def hasCommitFailed_def failurePatterns_def
        commitAndSave_def Let_def)
  let ?log = "issued (snd (executeWithRollback ?c (buildInterfaceCommands eth1) commitAndSave))"
  have "length ?log = 1"
    by (simp add: issued_execute clean)
  then have whole: "take 1 ?log = ?log"
    by simp
  have start: "drop (length (issued ?c)) ?log = ?log"
    by simp
  show ?thesis
    using eth1_batch [of ?c, THEN conjunct2] unfolding start whole .
qed

text \<open>
  Claim C2 as the specification words it asks for the address between single quotes. The
  builder does not return that list.
\<close>

theorem eth1_quoted_address_counterexample:
  "buildInterfaceCommands eth1 \<noteq>
     [''set interfaces ethernet eth1 description '' @ [sq] @ ''LAN Interface'' @ [sq],
      ''set interfaces ethernet eth1 address '' @ [sq] @ ''192.168.1.1/24'' @ [sq],
      ''delete interfaces ethernet eth1 disable'']"
  by (simp add: build_eth1)

subsection \<open>The enable/disable toggle\<close>

text \<open>The two toggle statements of the specification, for the path of an object.\<close>

definition enableStatement :: "string \<Rightarrow> string" where
  "enableStatement path = ''delete '' @ path @ '' disable''"

definition disableStatement :: "string \<Rightarrow> string" where
  "disableStatement path = ''set '' @ path @ '' disable''"

definition isToggle :: "string \<Rightarrow> string \<Rightarrow> bool" where
  "isToggle path s = (s = enableStatement path \<or> s = disableStatement path)"

definition natRuleOn :: NATRule where
  "natRuleOn = \<lparr>nat_number = Number 10, nat_type = ''source'', nat_description = None,
     nat_disabled = Some False, nat_outboundInterface = Some ''eth0'', nat_inboundInterface = None,
     nat_source = None, nat_destination = None,
     nat_translation = Some \<lparr>na_address = Some ''masquerade'', na_port = None\<rparr>,
     nat_protocol = None\<rparr>"

definition natRuleOff :: NATRule where
  "natRuleOff = natRuleOn\<lparr>nat_disabled := Some True\<rparr>"

definition fwRuleOn :: FirewallRule where
  "fwRuleOn = \<lparr>fr_number = Number 10, fr_action = ''accept'', fr_description = None,
     fr_protocol = Some ''tcp'', fr_source = None, fr_destination = None, fr_state = None,
     fr_log = None, fr_disabled = None\<rparr>"

definition fwRuleOff :: FirewallRule where
  "fwRuleOff = fwRuleOn\<lparr>fr_disabled := Some True\<rparr>"

lemma interface_toggle:
  "filter (isToggle (interfaceBasePath i)) (buildInterfaceCommands i) =
     [if if_enabled i then enableStatement (interfaceBasePath i)
      else disableStatement (interfaceBasePath i)]"
  by (simp add: buildInterfaceCommands_def Let_def filter_when isToggle_def
      enableStatement_def disableStatement_def)

lemma interface_toggle_last:
  "last (buildInterfaceCommands i) =
     (if if_enabled i then enableStatement (interfaceBasePath i)
      else disableStatement (interfaceBasePath i))"
  by (simp add: buildInterfaceCommands_def Let_def enableStatement_def disableStatement_def)

lemma firewallRule_toggle:
  "filter (isToggle (firewallRuleBasePath n r)) (buildFirewallRuleCommands n r) =
     (if truthyBool (fr_disabled r) then [disableStatement (firewallRuleBasePath n r)] else [])"
  by (simp add: buildFirewallRuleCommands_def Let_def filter_when isToggle_def
      enableStatement_def disableStatement_def whenBool_def)

lemma firewallRule_toggle_last:
  "truthyBool (fr_disabled r) \<Longrightarrow>
   last (buildFirewallRuleCommands n r) = disableStatement (firewallRuleBasePath n r)"
  by (simp add: buildFirewallRuleCommands_def Let_def disableStatement_def whenBool_def)

lemma natRule_toggle:
  "filter (isToggle (natRuleBasePath r)) (buildNATRuleCommands r) =
     (if truthyBool (nat_disabled r) then [disableStatement (natRuleBasePath r)] else [])"
  by (simp add: buildNATRuleCommands_def Let_def filter_when isToggle_def
      enableStatement_def disableStatement_def whenBool_def)

lemma natRule_toggle_last:
  "truthyBool (nat_disabled r) \<Longrightarrow>
   last (buildNATRuleCommands r) = disableStatement (natRuleBasePath r)"
  by (simp add: buildNATRuleCommands_def Let_def disableStatement_def whenBool_def)

lemma natRuleBasePath_On: "natRuleBasePath natRuleOn = ''nat source rule 10''"
  by (simp add: natRuleBasePath_def natRuleOn_def numberToString_10)

lemma firewallRuleBasePath_On: "firewallRuleBasePath ''WAN_IN'' fwRuleOn = ''firewall name WAN_IN rule 10''"
  by (simp add: firewallRuleBasePath_def fwRuleOn_def numberToString_10)

text \<open>
  Claim C3, as the code has it. The statement list of a network interface holds exactly
  one toggle statement, \<open>delete <path> disable\<close> when the interface is enabled and
  \<open>set <path> disable\<close> when it is not, and it is the last statement. The statement list of
  a firewall rule or of a NAT rule holds \<open>set <path> disable\<close>, once and last, when the
  rule's \<open>disabled\<close> flag is true, and no toggle statement at all otherwise.
\<close>

theorem toggle_statements:
  "filter (isToggle (interfaceBasePath i)) (buildInterfaceCommands i) =
     [if if_enabled i then enableStatement (interfaceBasePath i)
      else disableStatement (interfaceBasePath i)]
   \<and> last (buildInterfaceCommands i) =
     (if if_enabled i then enableStatement (interfaceBasePath i)
      else disableStatement (interfaceBasePath i))
   \<and> filter (isToggle (firewallRuleBasePath n fr)) (buildFirewallRuleCommands n fr) =
     (if truthyBool (fr_disabled fr) then [disableStatement (firewallRuleBasePath n fr)] else [])
   \<and> (truthyBool (fr_disabled fr) \<longrightarrow>
        last (buildFirewallRuleCommands n fr) = disableStatement (firewallRuleBasePath n fr))
   \<and> filter (isToggle (natRuleBasePath nr)) (buildNATRuleCommands nr) =
     (if truthyBool (nat_disabled nr) then [disableStatement (natRuleBasePath nr)] else [])
   \<and> (truthyBool (nat_disabled nr) \<longrightarrow>
        last (buildNATRuleCommands nr) = disableStatement (natRuleBasePath nr))"
  using interface_toggle [of i] interface_toggle_last [of i]
    firewallRule_toggle [of n fr] firewallRule_toggle_last [of fr n]
    natRule_toggle [of nr] natRule_toggle_last [of nr]
  by blast

theorem toggle_statements_witness:
  "filter (isToggle ''interfaces ethernet eth1'') (buildInterfaceCommands eth1) =
     [''delete interfaces ethernet eth1 disable'']
   \<and> last (buildInterfaceCommands eth1) = ''delete interfaces ethernet eth1 disable''
   \<and> filter (isToggle ''firewall name WAN_IN rule 10'') (buildFirewallRuleCommands ''WAN_IN'' fwRuleOff) =
     [''set firewall name WAN_IN rule 10 disable'']
   \<and> last (buildFirewallRuleCommands ''WAN_IN'' fwRuleOff) = ''set firewall name WAN_IN rule 10 disable''
   \<and> filter (isToggle ''nat source rule 10'') (buildNATRuleCommands natRuleOff) =
     [''set nat source rule 10 disable'']
   \<and> last (buildNATRuleCommands natRuleOff) = ''set nat source rule 10 disable''"
proof -
  have p1: "interfaceBasePath eth1 = ''interfaces ethernet eth1''"
    by (simp add: interfaceBasePath_def eth1_def)
  have p2: "firewallRuleBasePath ''WAN_IN'' fwRuleOff = ''firewall name WAN_IN rule 10''"
    using firewallRuleBasePath_On by (simp add: firewallRuleBasePath_def fwRuleOff_def)
  have p3: "natRuleBasePath natRuleOff = ''nat source rule 10''"
    using natRuleBasePath_On by (simp add: natRuleBasePath_def natRuleOff_def)
  have e: "if_enabled eth1" "truthyBool (fr_disabled fwRuleOff)" "truthyBool (nat_disabled natRuleOff)"
    by (simp_all add: eth1_def fwRuleOff_def natRuleOff_def truthyBool_def)
  show ?thesis
    using toggle_statements [of eth1 "''WAN_IN''" fwRuleOff natRuleOff]
    by (simp add: p1 p2 p3 e enableStatement_def disableStatement_def)
qed

text \<open>
  Claim C3 as the specification words it asks every flagged object for exactly one toggle
  statement. An enabled NAT rule and an enabled firewall rule get none: no
  \<open>delete <path> disable\<close> is emitted for them.
\<close>

theorem enabled_rule_toggle_counterexample:
  "\<not> truthyBool (nat_disabled natRuleOn)
   \<and> buildNATRuleCommands natRuleOn =
       [''set nat source rule 10 outbound-interface eth0'',
        ''set nat source rule 10 translation address masquerade'']
   \<and> filter (isToggle ''nat source rule 10'') (buildNATRuleCommands natRuleOn) = []
   \<and> \<not> truthyBool (fr_disabled fwRuleOn)
   \<and> buildFirewallRuleCommands ''WAN_IN'' fwRuleOn =
       [''set firewall name WAN_IN rule 10 action accept'',
        ''set firewall name WAN_IN rule 10 protocol tcp'']
   \<and> filter (isToggle ''firewall name WAN_IN rule 10'')
        (buildFirewallRuleCommands ''WAN_IN'' fwRuleOn) = []"
proof -
  have n: "buildNATRuleCommands natRuleOn =
       [''set nat source rule 10 outbound-interface eth0'',
        ''set nat source rule 10 translation address masquerade'']"
    by (simp add: buildNATRuleCommands_def natRuleBasePath_On Let_def)
       (simp add: natRuleOn_def whenStr_def whenObj_def whenBool_def truthyBool_def)
  have f: "buildFirewallRuleCommands ''WAN_IN'' fwRuleOn =
       [''set firewall name WAN_IN rule 10 action accept'',
        ''set firewall name WAN_IN rule 10 protocol tcp'']"
    by (simp add: buildFirewallRuleCommands_def firewallRuleBasePath_On Let_def)
       (simp add: fwRuleOn_def whenStr_def whenObj_def whenBool_def truthyBool_def)
  show ?thesis
    by (simp add: n f isToggle_def enableStatement_def disableStatement_def)
       (simp add: natRuleOn_def fwRuleOn_def truthyBool_def)
qed

subsection \<open>Failure detection and rollback\<close>

definition commitOn :: "ExecutionOptions \<Rightarrow> bool" where
  "commitOn options = (case opt_commit options of None \<Rightarrow> True | Some b \<Rightarrow> b)"

definition saveOn :: "ExecutionOptions \<Rightarrow> bool" where
  "saveOn options = (case opt_save options of None \<Rightarrow> True | Some b \<Rightarrow> b)"

text \<open>The main transcript shows a failure: an error line, or a commit-failure pattern when
  the batch commits.\<close>

definition failureDetected :: "ExecutionOptions \<Rightarrow> string \<Rightarrow> bool" where
  "failureDetected options out = (parseErrors out \<noteq> [] \<or> (commitOn options \<and> hasCommitFailed out))"

lemma exec_clean:
  assumes "outcomes client = Inr out # rest" "\<not> failureDetected options out"
  shows "executeWithRollback client commands options =
     (Inr (), client\<lparr>outcomes := rest,
        issued := issued client @ [fullCommands commands (commitOn options) (saveOn options)]\<rparr>)"
  using assms
  by (auto simp: executeWithRollback_def shell_def checkOutput_def commitOn_def saveOn_def Let_def
      failureDetected_def)

text \<open>The error the executor throws for a main transcript that shows a failure: the error
  lines are looked for first, the commit-failure patterns second.\<close>

definition originalError :: "string list \<Rightarrow> string \<Rightarrow> exec_error" where
  "originalError commands out =
     (if parseErrors out \<noteq> []
      then VyOSCommandError (''Command execution failed: '' @ joinWith '', '' (parseErrors out))
             (joinWith [nl] commands) out
      else VyOSCommitError ''Commit failed'' out)"

lemma exec_failed:
  assumes "outcomes client = Inr out # rest" "failureDetected options out"
  shows "issued (snd (executeWithRollback client commands options)) =
           issued client @ [fullCommands commands (commitOn options) (saveOn options),
             [''configure'', ''rollback 0'', ''commit'', ''save'', ''exit'']]"
    and "fst (executeWithRollback client commands options) =
           Inl (case rest of
                  [] \<Rightarrow>
                    VyOSCommandError
                      ''Command execution failed and rollback also failed: Not connected to SSH server''
                      (joinWith [nl] commands) (errMessage (originalError commands out))
                | Inl e # others \<Rightarrow>
                    VyOSCommandError
                      (''Command execution failed and rollback also failed: '' @ errMessage e)
                      (joinWith [nl] commands) (errMessage (originalError commands out))
                | Inr out2 # others \<Rightarrow>
                    if hasCommitFailed out2
                    then VyOSCommandError
                           ''Command execution failed and rollback also failed: Rollback commit failed''
                           (joinWith [nl] commands) (errMessage (originalError commands out))
                    else originalError commands out)"
    and "outcomes (snd (executeWithRollback client commands options)) = tl rest"
  using assms
  by (auto simp: executeWithRollback_def shell_def checkOutput_def commitOn_def saveOn_def Let_def
      rollback_def rollbackCommands_0 failureDetected_def originalError_def
      split: list.splits sum.splits)

lemma parseErrors_commit_failed: "parseErrors ''Commit failed'' = []"
  by (simp add: parseErrors_def trim_def isWhitespace_def isErrorLine_def)

lemma hasCommitFailed_commit_failed: "hasCommitFailed ''Commit failed''"
  by (simp add: hasCommitFailed_def failurePatterns_def)

lemma parseErrors_config_path:
  "parseErrors ''Error: Configuration path: [x] is not valid'' =
     [''Error: Configuration path: [x] is not valid'']"
  by (simp add: parseErrors_def trim_def isWhitespace_def isErrorLine_def)

lemma hasCommitFailed_config_path:
  "hasCommitFailed ''Error: Configuration path: [x] is not valid''"
  by (simp add: hasCommitFailed_def failurePatterns_def)

lemma parseErrors_prompt: "parseErrors ''vyos@vyos# exit'' = []"
  by (simp add: parseErrors_def trim_def isWhitespace_def isErrorLine_def afterBracket_def)

lemma hasCommitFailed_prompt: "\<not> hasCommitFailed ''vyos@vyos# exit''"
  by (simp add: hasCommitFailed_def failurePatterns_def)

text \<open>
  Claim C4, as the code has it. Let the shell answer the batch with the transcript
  \<open>out\<close>. When \<open>out\<close> has no error line and, for a committing batch, no commit-failure
  pattern, the executor reports success and hands the shell nothing more. When a failure is
  detected, the executor hands the shell exactly \<open>configure\<close>, \<open>rollback 0\<close>, \<open>commit\<close>,
  \<open>save\<close>, \<open>exit\<close> as the next batch, whatever becomes of that batch. The error of the
  batch is a command error whenever \<open>out\<close> has an error line (also when it has a
  commit-failure pattern as well), and a commit error only when \<open>out\<close> has a
  commit-failure pattern and no error line. That error is returned when the rollback call
  resolves with a transcript that has no commit-failure pattern. When the rollback
  transcript has a commit-failure pattern, or the rollback call rejects, the error returned
  is a command error that says the rollback failed too, with the message of the rollback's
  error, whatever the error of the batch was.
\<close>

theorem executeWithRollback_failure_handling:
  assumes "outcomes client = Inr out # rest"
  shows "(\<not> failureDetected options out \<longrightarrow>
            fst (executeWithRollback client commands options) = Inr ()
          \<and> issued (snd (executeWithRollback client commands options)) =
              issued client @ [fullCommands commands (commitOn options) (saveOn options)])
       \<and> (failureDetected options out \<longrightarrow>
            issued (snd (executeWithRollback client commands options)) =
              issued client @ [fullCommands commands (commitOn options) (saveOn options),
                [''configure'', ''rollback 0'', ''commit'', ''save'', ''exit'']]
          \<and> fst (executeWithRollback client commands options) =
              Inl (let original =
                         (if parseErrors out \<noteq> []
                          then VyOSCommandError
                                 (''Command execution failed: '' @ joinWith '', '' (parseErrors out))
                                 (joinWith [nl] commands) out
                          else VyOSCommitError ''Commit failed'' out);
                       rollbackFailed = (\<lambda>message.
                          VyOSCommandError
                            (''Command execution failed and rollback also failed: '' @ message)
                            (joinWith [nl] commands) (errMessage original))
                   in case rest of
                        [] \<Rightarrow> rollbackFailed ''Not connected to SSH server''
                      | Inl rollbackError # others \<Rightarrow> rollbackFailed (errMessage rollbackError)
                      | Inr out2 # others \<Rightarrow>
                          if hasCommitFailed out2 then rollbackFailed ''Rollback commit failed''
                          else original))"
proof (cases "failureDetected options out")
  case False
  with exec_clean [OF assms, of options commands] show ?thesis
    by simp
next
  case True
  have "originalError commands out =
      (if parseErrors out \<noteq> []
       then VyOSCommandError
              (''Command execution failed: '' @ joinWith '', '' (parseErrors out))
              (joinWith [nl] commands) out
       else VyOSCommitError ''Commit failed'' out)"
    by (simp add: originalError_def)
  with True exec_failed(1,2) [OF assms True, of commands] show ?thesis
    by (simp add: Let_def split: list.splits sum.splits)
qed

theorem executeWithRollback_failure_handling_witness:
  "executeWithRollback
     \<lparr>outcomes = [Inr ''Commit failed'', Inr ''vyos@vyos# exit''], issued = []\<rparr>
     [''set system host-name r1''] commitAndSave =
   (Inl (VyOSCommitError ''Commit failed'' ''Commit failed''),
    \<lparr>outcomes = [],
     issued = [[''configure'', ''set system host-name r1'', ''commit'', ''save'', ''exit''],
               [''configure'', ''rollback 0'', ''commit'', ''save'', ''exit'']]\<rparr>)"
proof -
  let ?c = "\<lparr>outcomes = [Inr ''Commit failed'', Inr ''vyos@vyos# exit''], issued = []\<rparr>"
  let ?r = "executeWithRollback ?c [''set system host-name r1''] commitAndSave"
  have o: "outcomes ?c = Inr ''Commit failed'' # [Inr ''vyos@vyos# exit'']"
    by simp
  have d: "failureDetected commitAndSave ''Commit failed''"
    by (simp add: failureDetected_def hasCommitFailed_commit_failed commitOn_def commitAndSave_def)
  have left: "outcomes (snd ?r) = []"
    by (simp add: exec_failed(3) [OF o d])
  note h = executeWithRollback_failure_handling [OF o, of commitAndSave "[''set system host-name r1'']"]
  from h d have res: "fst ?r = Inl (VyOSCommitError ''Commit failed'' ''Commit failed'')"
    by (simp add: parseErrors_commit_failed hasCommitFailed_prompt)
  from h d
  have "issued (snd ?r) =
      issued ?c @ [fullCommands [''set system host-name r1''] (commitOn commitAndSave)
                     (saveOn commitAndSave),
                   [''configure'', ''rollback 0'', ''commit'', ''save'', ''exit'']]"
    by blast
  then have log: "issued (snd ?r) =
      [[''configure'', ''set system host-name r1'', ''commit'', ''save'', ''exit''],
       [''configure'', ''rollback 0'', ''commit'', ''save'', ''exit'']]"
    by (simp add: fullCommands_def commitOn_def saveOn_def commitAndSave_def)
  from res log left show ?thesis
    by (cases ?r) (auto intro: SSHClient.equality)
qed

text \<open>
  Claim C4 as the specification words it promises a commit error whenever a commit-failure
  marker is found. Two transcripts show otherwise. The marker \<open>Error: Configuration path\<close>
  of the commit-failure list is an error line too, and the error returned is a command
  error. And when the rollback transcript has a commit-failure marker itself, the commit
  error of the batch is replaced by a command error.
\<close>

theorem commit_error_counterexample:
  "hasCommitFailed ''Error: Configuration path: [x] is not valid''
   \<and> fst (executeWithRollback
        \<lparr>outcomes = [Inr ''Error: Configuration path: [x] is not valid'', Inr ''vyos@vyos# exit''],
         issued = []\<rparr>
        [''set system host-name r1''] commitAndSave) =
       Inl (VyOSCommandError
             ''Command execution failed: Error: Configuration path: [x] is not valid''
             ''set system host-name r1''
             ''Error: Configuration path: [x] is not valid'')
   \<and> parseErrors ''Commit failed'' = [] \<and> hasCommitFailed ''Commit failed''
   \<and> fst (executeWithRollback
        \<lparr>outcomes = [Inr ''Commit failed'', Inr ''Commit failed''], issued = []\<rparr>
        [''set system host-name r1''] commitAndSave) =
       Inl (VyOSCommandError
             ''Command execution failed and rollback also failed: Rollback commit failed''
             ''set system host-name r1'' ''Commit failed'')"
proof -
  let ?a = "\<lparr>outcomes = [Inr ''Error: Configuration path: [x] is not valid'', Inr ''vyos@vyos# exit''],
         issued = []\<rparr>"
  let ?b = "\<lparr>outcomes = [Inr ''Commit failed'', Inr ''Commit failed''], issued = []\<rparr>"
  have oa: "outcomes ?a = Inr ''Error: Configuration path: [x] is not valid'' # [Inr ''vyos@vyos# exit'']"
    by simp
  have da: "failureDetected commitAndSave ''Error: Configuration path: [x] is not valid''"
    by (simp add: failureDetected_def parseErrors_config_path)
  have ob: "outcomes ?b = Inr ''Commit failed'' # [Inr ''Commit failed'']"
    by simp
  have db: "failureDetected commitAndSave ''Commit failed''"
    by (simp add: failureDetected_def hasCommitFailed_commit_failed commitOn_def commitAndSave_def)
  show ?thesis
    by (simp add: exec_failed(2) [OF oa da] exec_failed(2) [OF ob db] originalError_def
        hasCommitFailed_prompt parseErrors_config_path parseErrors_commit_failed
        hasCommitFailed_commit_failed hasCommitFailed_config_path)
qed

subsection \<open>Use of the sanitizer\<close>

definition bond0 :: NetworkInterface where
  "bond0 = \<lparr>if_name = ''bond0'', if_type = ''bond'', if_description = None,
     if_enabled = True, if_mtu = None, if_mac = None,
     if_addresses = \<lparr>ipv4 = [], ipv6 = [], dhcp = False, dhcpv6 = False\<rparr>,
     if_vlan = None,
     if_bond = Some \<lparr>bond_mode = ''802.3ad'', bond_members = [''eth2'', ''eth3''],
       bond_primaryInterface = None, bond_hashPolicy = None\<rparr>,
     if_bridge = None\<rparr>"

definition routeLab :: StaticRoute where
  "routeLab = \<lparr>route_network = ''10.9.0.0/16'', route_nextHop = Some ''192.168.1.254'',
     route_interface = None, route_distance = None, route_description = Some ''to lab''\<rparr>"

definition zoneLan :: FirewallZone where
  "zoneLan = \<lparr>zone_name = ''LAN'', zone_description = Some ''inside zone'',
     zone_defaultAction = ''drop'', zone_interfaces = [''eth1''], zone_from = []\<rparr>"

definition fwRuleWeb :: FirewallRule where
  "fwRuleWeb = \<lparr>fr_number = Number 10, fr_action = ''accept'',
     fr_description = Some ''web in'', fr_protocol = Some ''tcp'',
     fr_source = Some \<lparr>fa_address = Some ''10.0.0.0/8'', fa_port = Some ''1024-65535'',
       fa_group = Some \<lparr>grp_addressGroup = Some ''ADMINS'', grp_networkGroup = Some ''LAN_NETS'',
         grp_portGroup = None\<rparr>\<rparr>,
     fr_destination = Some \<lparr>fa_address = Some ''192.168.1.10'', fa_port = Some ''443'',
       fa_group = Some \<lparr>grp_addressGroup = Some ''WEB_SERVERS'', grp_networkGroup = None,
         grp_portGroup = Some ''WEB_PORTS''\<rparr>\<rparr>,
     fr_state = None, fr_log = None, fr_disabled = None\<rparr>"

definition rulesetWan :: FirewallRuleset where
  "rulesetWan = \<lparr>rs_name = ''WAN_IN'', rs_description = Some ''from the internet'',
     rs_defaultAction = ''drop'', rs_enableDefaultLog = None, rs_rules = [fwRuleWeb]\<rparr>"

definition natRuleWeb :: NATRule where
  "natRuleWeb = \<lparr>nat_number = Number 10, nat_type = ''destination'',
     nat_description = Some ''web server'', nat_disabled = None,
     nat_outboundInterface = None, nat_inboundInterface = Some ''eth0'',
     nat_source = Some \<lparr>na_address = Some ''0.0.0.0/0'', na_port = Some ''1024-65535''\<rparr>,
     nat_destination = Some \<lparr>na_address = Some ''203.0.113.5'', na_port = Some ''443''\<rparr>,
     nat_translation = Some \<lparr>na_address = Some ''192.168.1.10'', na_port = Some ''8443''\<rparr>,
     nat_protocol = Some ''tcp''\<rparr>"

definition siteHq :: IPSecSite where
  "siteHq = \<lparr>site_name = ''hq'', site_authMode = ''pre-shared-secret'',
     site_description = Some ''HQ tunnel'', site_localAddress = ''198.51.100.1'',
     site_remoteAddress = ''203.0.113.1'',
     site_authentication = \<lparr>auth_mode = ''pre-shared-secret'',
       auth_preSharedSecret = Some ''top secret'', auth_remoteId = Some ''hq gateway'',
       auth_localId = Some ''branch office''\<rparr>,
     site_ikeGroup = \<lparr>ikeg_name = ''IKE-HQ'',
       ikeg_proposal = [\<lparr>ike_encryption = ''aes256'', ike_hash = ''sha256'', ike_dhGroup = ''14''\<rparr>],
       ikeg_lifeTime = None\<rparr>,
     site_espGroup = \<lparr>espg_name = ''ESP-HQ'',
       espg_proposal = [\<lparr>esp_encryption = ''aes256'', esp_hash = ''sha256''\<rparr>],
       espg_lifeTime = None, espg_pfs = None\<rparr>,
     site_tunnels = [\<lparr>tun_id = Number 0, tun_localSubnet = ''192.168.1.0/24'',
       tun_remoteSubnet = ''10.0.0.0/24'', tun_protocol = None\<rparr>]\<rparr>"

definition userAda :: SystemUser where
  "userAda = \<lparr>user_name = ''ada'', user_fullName = Some ''Ada L'',
     user_authentication = \<lparr>ua_encryptedPassword = Some ''$6$salt hash'',
       ua_plaintextPassword = Some ''pass word'', ua_publicKeys = Some [''AAAAB3Nza ada@lab'']\<rparr>,
     user_level = Some ''admin''\<rparr>"

definition systemR1 :: SystemConfig where
  "systemR1 = \<lparr>sys_hostName = Some ''r1'', sys_domainName = Some ''lab net'',
     sys_timeZone = Some ''Europe/Paris'',
     sys_nameServer = Some [''8.8.8.8''],
     sys_ntp = Some \<lparr>ntp_servers = [''pool.ntp.org''], ntp_allowClients = None\<rparr>,
     sys_login = Some \<lparr>login_users = [userAda]\<rparr>\<rparr>"

lemma san_if_description:
  "if_description i = Some d \<Longrightarrow> d \<noteq> [] \<Longrightarrow>
   ''set '' @ interfaceBasePath i @ '' description '' @ sanitizeConfigValue d
     \<in> set (buildInterfaceCommands i)"
  by (simp add: buildInterfaceCommands_def Let_def whenStr_def)

lemma san_if_address:
  "a \<in> set (ipv4 (if_addresses i)) \<union> set (ipv6 (if_addresses i)) \<Longrightarrow>
   ''set '' @ interfaceBasePath i @ '' address '' @ sanitizeConfigValue a
     \<in> set (buildInterfaceCommands i)"
  by (auto simp add: buildInterfaceCommands_def Let_def)

lemma san_route_description:
  "route_description r = Some d \<Longrightarrow> d \<noteq> [] \<Longrightarrow>
   ''set protocols static route '' @ route_network r @ '' description '' @ sanitizeConfigValue d
     \<in> set (buildStaticRouteCommands r)"
  by (simp add: buildStaticRouteCommands_def Let_def whenStr_def)

lemma san_zone_description:
  "zone_description z = Some d \<Longrightarrow> d \<noteq> [] \<Longrightarrow>
   ''set zone-policy zone '' @ zone_name z @ '' description '' @ sanitizeConfigValue d
     \<in> set (buildFirewallZoneCommands z)"
  by (simp add: buildFirewallZoneCommands_def Let_def whenStr_def)

lemma san_ruleset_description:
  "rs_description rs = Some d \<Longrightarrow> d \<noteq> [] \<Longrightarrow>
   ''set firewall name '' @ rs_name rs @ '' description '' @ sanitizeConfigValue d
     \<in> set (buildFirewallRulesetCommands rs)"
  by (simp add: buildFirewallRulesetCommands_def Let_def whenStr_def)

lemma san_rule_description:
  "fr_description r = Some d \<Longrightarrow> d \<noteq> [] \<Longrightarrow>
   ''set '' @ firewallRuleBasePath n r @ '' description '' @ sanitizeConfigValue d
     \<in> set (buildFirewallRuleCommands n r)"
  by (simp add: buildFirewallRuleCommands_def Let_def whenStr_def)

lemma san_nat_description:
  "nat_description r = Some d \<Longrightarrow> d \<noteq> [] \<Longrightarrow>
   ''set '' @ natRuleBasePath r @ '' description '' @ sanitizeConfigValue d
     \<in> set (buildNATRuleCommands r)"
  by (simp add: buildNATRuleCommands_def Let_def whenStr_def)

lemma san_ipsec_secret:
  "auth_mode (site_authentication s) = ''pre-shared-secret'' \<Longrightarrow>
   auth_preSharedSecret (site_authentication s) = Some k \<Longrightarrow> k \<noteq> [] \<Longrightarrow>
   ''set vpn ipsec site-to-site peer '' @ site_remoteAddress s
      @ '' authentication pre-shared-secret '' @ sanitizeConfigValue k
     \<in> set (buildIPSecCommands s)"
  by (simp add: buildIPSecCommands_def Let_def whenStr_def)

lemma san_ipsec_description:
  "site_description s = Some d \<Longrightarrow> d \<noteq> [] \<Longrightarrow>
   ''set vpn ipsec site-to-site peer '' @ site_remoteAddress s
      @ '' description '' @ sanitizeConfigValue d
     \<in> set (buildIPSecCommands s)"
  by (simp add: buildIPSecCommands_def Let_def whenStr_def)

lemma san_system_hostName:
  "sys_hostName s = Some h \<Longrightarrow> h \<noteq> [] \<Longrightarrow>
   ''set system host-name '' @ sanitizeConfigValue h \<in> set (buildSystemCommands s)"
  by (simp add: buildSystemCommands_def whenStr_def)

lemma san_user_password:
  "ua_plaintextPassword (user_authentication u) = Some h \<Longrightarrow> h \<noteq> [] \<Longrightarrow>
   ''set system login user '' @ user_name u @ '' authentication plaintext-password ''
      @ sanitizeConfigValue h
     \<in> set (buildUserCommands u)"
  by (simp add: buildUserCommands_def Let_def whenStr_def)

lemma san_ipsec_remoteId:
  "auth_remoteId (site_authentication s) = Some k \<Longrightarrow> k \<noteq> [] \<Longrightarrow>
   ''set vpn ipsec site-to-site peer '' @ site_remoteAddress s
      @ '' authentication remote-id '' @ sanitizeConfigValue k
     \<in> set (buildIPSecCommands s)"
  by (simp add: buildIPSecCommands_def Let_def whenStr_def)

lemma san_ipsec_localId:
  "auth_localId (site_authentication s) = Some k \<Longrightarrow> k \<noteq> [] \<Longrightarrow>
   ''set vpn ipsec site-to-site peer '' @ site_remoteAddress s
      @ '' authentication local-id '' @ sanitizeConfigValue k
     \<in> set (buildIPSecCommands s)"
  by (simp add: buildIPSecCommands_def Let_def whenStr_def)

lemma san_system_domainName:
  "sys_domainName s = Some h \<Longrightarrow> h \<noteq> [] \<Longrightarrow>
   ''set system domain-name '' @ sanitizeConfigValue h \<in> set (buildSystemCommands s)"
  by (simp add: buildSystemCommands_def whenStr_def)

lemma san_system_timeZone:
  "sys_timeZone s = Some h \<Longrightarrow> h \<noteq> [] \<Longrightarrow>
   ''set system time-zone '' @ sanitizeConfigValue h \<in> set (buildSystemCommands s)"
  by (simp add: buildSystemCommands_def whenStr_def)

lemma san_user_fullName:
  "user_fullName u = Some h \<Longrightarrow> h \<noteq> [] \<Longrightarrow>
   ''set system login user '' @ user_name u @ '' full-name '' @ sanitizeConfigValue h
     \<in> set (buildUserCommands u)"
  by (simp add: buildUserCommands_def Let_def whenStr_def)

lemma san_user_encrypted:
  "ua_encryptedPassword (user_authentication u) = Some h \<Longrightarrow> h \<noteq> [] \<Longrightarrow>
   ''set system login user '' @ user_name u @ '' authentication encrypted-password ''
      @ sanitizeConfigValue h
     \<in> set (buildUserCommands u)"
  by (simp add: buildUserCommands_def Let_def whenStr_def)

lemma san_user_publicKey:
  assumes "ua_publicKeys (user_authentication u) = Some keys" "index < length keys"
  shows "''set system login user '' @ user_name u @ '' authentication public-keys key-''
      @ numberToString (Number (int index)) @ '' key '' @ sanitizeConfigValue (keys ! index)
     \<in> set (buildUserCommands u)"
proof -
  have "(index, keys ! index) \<in> set (enumerate 0 keys)"
    using assms(2) by (simp add: in_set_enumerate_eq)
  then show ?thesis
    using assms(1) by (force simp: buildUserCommands_def Let_def whenObj_def)
qed

lemma san_user_in_system:
  "sys_login s = Some l \<Longrightarrow> u \<in> set (login_users l) \<Longrightarrow>
   set (buildUserCommands u) \<subseteq> set (buildSystemCommands s)"
  by (auto simp: buildSystemCommands_def whenObj_def)

lemma san_rule_in_ruleset:
  "r \<in> set (rs_rules rs) \<Longrightarrow>
   set (buildFirewallRuleCommands (rs_name rs) r) \<subseteq> set (buildFirewallRulesetCommands rs)"
  by (auto simp: buildFirewallRulesetCommands_def Let_def)

lemma raw_rule_address:
  "fr_source r = Some a \<Longrightarrow> fa_address a = Some x \<Longrightarrow> x \<noteq> [] \<Longrightarrow>
   ''set '' @ firewallRuleBasePath n r @ '' source address '' @ x
     \<in> set (buildFirewallRuleCommands n r)"
  "fr_destination r = Some a \<Longrightarrow> fa_address a = Some x \<Longrightarrow> x \<noteq> [] \<Longrightarrow>
   ''set '' @ firewallRuleBasePath n r @ '' destination address '' @ x
     \<in> set (buildFirewallRuleCommands n r)"
  by (simp_all add: buildFirewallRuleCommands_def Let_def whenStr_def whenObj_def)

lemma raw_rule_port:
  "fr_source r = Some a \<Longrightarrow> fa_port a = Some x \<Longrightarrow> x \<noteq> [] \<Longrightarrow>
   ''set '' @ firewallRuleBasePath n r @ '' source port '' @ x
     \<in> set (buildFirewallRuleCommands n r)"
  "fr_destination r = Some a \<Longrightarrow> fa_port a = Some x \<Longrightarrow> x \<noteq> [] \<Longrightarrow>
   ''set '' @ firewallRuleBasePath n r @ '' destination port '' @ x
     \<in> set (buildFirewallRuleCommands n r)"
  by (simp_all add: buildFirewallRuleCommands_def Let_def whenStr_def whenObj_def)

lemma raw_rule_group:
  "fr_source r = Some a \<Longrightarrow> fa_group a = Some g \<Longrightarrow> grp_addressGroup g = Some x \<Longrightarrow> x \<noteq> [] \<Longrightarrow>
   ''set '' @ firewallRuleBasePath n r @ '' source group address-group '' @ x
     \<in> set (buildFirewallRuleCommands n r)"
  "fr_source r = Some a \<Longrightarrow> fa_group a = Some g \<Longrightarrow> grp_networkGroup g = Some x \<Longrightarrow> x \<noteq> [] \<Longrightarrow>
   ''set '' @ firewallRuleBasePath n r @ '' source group network-group '' @ x
     \<in> set (buildFirewallRuleCommands n r)"
  "fr_destination r = Some a \<Longrightarrow> fa_group a = Some g \<Longrightarrow> grp_addressGroup g = Some x \<Longrightarrow> x \<noteq> [] \<Longrightarrow>
   ''set '' @ firewallRuleBasePath n r @ '' destination group address-group '' @ x
     \<in> set (buildFirewallRuleCommands n r)"
  "fr_destination r = Some a \<Longrightarrow> fa_group a = Some g \<Longrightarrow> grp_portGroup g = Some x \<Longrightarrow> x \<noteq> [] \<Longrightarrow>
   ''set '' @ firewallRuleBasePath n r @ '' destination group port-group '' @ x
     \<in> set (buildFirewallRuleCommands n r)"
  by (simp_all add: buildFirewallRuleCommands_def Let_def whenStr_def whenObj_def)

lemma raw_nat_address:
  "nat_source r = Some a \<Longrightarrow> na_address a = Some x \<Longrightarrow> x \<noteq> [] \<Longrightarrow>
   ''set '' @ natRuleBasePath r @ '' source address '' @ x \<in> set (buildNATRuleCommands r)"
  "nat_destination r = Some a \<Longrightarrow> na_address a = Some x \<Longrightarrow> x \<noteq> [] \<Longrightarrow>
   ''set '' @ natRuleBasePath r @ '' destination address '' @ x \<in> set (buildNATRuleCommands r)"
  "nat_translation r = Some a \<Longrightarrow> na_address a = Some x \<Longrightarrow> x \<noteq> [] \<Longrightarrow>
   ''set '' @ natRuleBasePath r @ '' translation address '' @ x \<in> set (buildNATRuleCommands r)"
  by (simp_all add: buildNATRuleCommands_def Let_def whenStr_def whenObj_def)

lemma raw_nat_port:
  "nat_source r = Some a \<Longrightarrow> na_port a = Some x \<Longrightarrow> x \<noteq> [] \<Longrightarrow>
   ''set '' @ natRuleBasePath r @ '' source port '' @ x \<in> set (buildNATRuleCommands r)"
  "nat_destination r = Some a \<Longrightarrow> na_port a = Some x \<Longrightarrow> x \<noteq> [] \<Longrightarrow>
   ''set '' @ natRuleBasePath r @ '' destination port '' @ x \<in> set (buildNATRuleCommands r)"
  "nat_translation r = Some a \<Longrightarrow> na_port a = Some x \<Longrightarrow> x \<noteq> [] \<Longrightarrow>
   ''set '' @ natRuleBasePath r @ '' translation port '' @ x \<in> set (buildNATRuleCommands r)"
  by (simp_all add: buildNATRuleCommands_def Let_def whenStr_def whenObj_def)

lemma raw_name_server:
  "sys_nameServer s = Some xs \<Longrightarrow> x \<in> set xs \<Longrightarrow>
   ''set system name-server '' @ x \<in> set (buildSystemCommands s)"
  by (simp add: buildSystemCommands_def whenObj_def)

lemma raw_ntp_server:
  "sys_ntp s = Some n \<Longrightarrow> x \<in> set (ntp_servers n) \<Longrightarrow>
   ''set system ntp server '' @ x \<in> set (buildSystemCommands s)"
  by (simp add: buildSystemCommands_def whenObj_def)

lemma raw_bond_member:
  "if_type i = ''bond'' \<Longrightarrow> if_bond i = Some b \<Longrightarrow> x \<in> set (bond_members b) \<Longrightarrow>
   ''set '' @ interfaceBasePath i @ '' member interface '' @ x \<in> set (buildInterfaceCommands i)"
  by (simp add: buildInterfaceCommands_def Let_def whenObj_def)

text \<open>
  Claim C5, as the code has it. The builder passes these literals through
  \<open>sanitizeConfigValue\<close>, and no others: every description (interface, static route, zone,
  ruleset, firewall rule, NAT rule, IPsec site), the addresses of an interface, the IPsec
  pre-shared secret, remote id and local id, the system host name, domain name and time
  zone, and a user's full name, plaintext password, encrypted password and public keys. It
  embeds these literals as they are: the source and destination address, port and groups
  of a firewall rule, the source, destination and translation address and port of a NAT
  rule, name servers, NTP servers and the member names of a bond. The statements of a
  firewall rule are part of the statements of its ruleset, and the statements of a user
  are part of the statements of the system configuration.
\<close>

theorem sanitizer_use:
  "(if_description i = Some d1 \<and> d1 \<noteq> [] \<longrightarrow>
      ''set '' @ interfaceBasePath i @ '' description '' @ sanitizeConfigValue d1
        \<in> set (buildInterfaceCommands i))
   \<and> (addr \<in> set (ipv4 (if_addresses i)) \<union> set (ipv6 (if_addresses i)) \<longrightarrow>
      ''set '' @ interfaceBasePath i @ '' address '' @ sanitizeConfigValue addr
        \<in> set (buildInterfaceCommands i))
   \<and> (route_description rt = Some d2 \<and> d2 \<noteq> [] \<longrightarrow>
      ''set protocols static route '' @ route_network rt @ '' description ''
          @ sanitizeConfigValue d2 \<in> set (buildStaticRouteCommands rt))
   \<and> (zone_description z = Some d3 \<and> d3 \<noteq> [] \<longrightarrow>
      ''set zone-policy zone '' @ zone_name z @ '' description '' @ sanitizeConfigValue d3
        \<in> set (buildFirewallZoneCommands z))
   \<and> (rs_description rs = Some d4 \<and> d4 \<noteq> [] \<longrightarrow>
      ''set firewall name '' @ rs_name rs @ '' description '' @ sanitizeConfigValue d4
        \<in> set (buildFirewallRulesetCommands rs))
   \<and> (fr_description fr = Some d5 \<and> d5 \<noteq> [] \<longrightarrow>
      ''set '' @ firewallRuleBasePath n fr @ '' description '' @ sanitizeConfigValue d5
        \<in> set (buildFirewallRuleCommands n fr))
   \<and> (nat_description nr = Some d6 \<and> d6 \<noteq> [] \<longrightarrow>
      ''set '' @ natRuleBasePath nr @ '' description '' @ sanitizeConfigValue d6
        \<in> set (buildNATRuleCommands nr))
   \<and> (site_description site = Some d7 \<and> d7 \<noteq> [] \<longrightarrow>
      ''set vpn ipsec site-to-site peer '' @ site_remoteAddress site @ '' description ''
          @ sanitizeConfigValue d7 \<in> set (buildIPSecCommands site))
   \<and> (auth_mode (site_authentication site) = ''pre-shared-secret''
        \<and> auth_preSharedSecret (site_authentication site) = Some psk \<and> psk \<noteq> [] \<longrightarrow>
      ''set vpn ipsec site-to-site peer '' @ site_remoteAddress site
          @ '' authentication pre-shared-secret '' @ sanitizeConfigValue psk
        \<in> set (buildIPSecCommands site))
   \<and> (auth_remoteId (site_authentication site) = Some rid \<and> rid \<noteq> [] \<longrightarrow>
      ''set vpn ipsec site-to-site peer '' @ site_remoteAddress site
          @ '' authentication remote-id '' @ sanitizeConfigValue rid
        \<in> set (buildIPSecCommands site))
   \<and> (auth_localId (site_authentication site) = Some lid \<and> lid \<noteq> [] \<longrightarrow>
      ''set vpn ipsec site-to-site peer '' @ site_remoteAddress site
          @ '' authentication local-id '' @ sanitizeConfigValue lid
        \<in> set (buildIPSecCommands site))
   \<and> (sys_hostName sys = Some host \<and> host \<noteq> [] \<longrightarrow>
      ''set system host-name '' @ sanitizeConfigValue host \<in> set (buildSystemCommands sys))
   \<and> (sys_domainName sys = Some dname \<and> dname \<noteq> [] \<longrightarrow>
      ''set system domain-name '' @ sanitizeConfigValue dname \<in> set (buildSystemCommands sys))
   \<and> (sys_timeZone sys = Some tz \<and> tz \<noteq> [] \<longrightarrow>
      ''set system time-zone '' @ sanitizeConfigValue tz \<in> set (buildSystemCommands sys))
   \<and> (user_fullName u = Some full \<and> full \<noteq> [] \<longrightarrow>
      ''set system login user '' @ user_name u @ '' full-name '' @ sanitizeConfigValue full
        \<in> set (buildUserCommands u))
   \<and> (ua_plaintextPassword (user_authentication u) = Some pw \<and> pw \<noteq> [] \<longrightarrow>
      ''set system login user '' @ user_name u @ '' authentication plaintext-password ''
          @ sanitizeConfigValue pw \<in> set (buildUserCommands u))
   \<and> (ua_encryptedPassword (user_authentication u) = Some enc \<and> enc \<noteq> [] \<longrightarrow>
      ''set system login user '' @ user_name u @ '' authentication encrypted-password ''
          @ sanitizeConfigValue enc \<in> set (buildUserCommands u))
   \<and> (ua_publicKeys (user_authentication u) = Some keys \<and> index < length keys \<longrightarrow>
      ''set system login user '' @ user_name u @ '' authentication public-keys key-''
          @ numberToString (Number (int index)) @ '' key '' @ sanitizeConfigValue (keys ! index)
        \<in> set (buildUserCommands u))
   \<and> (sys_login sys = Some login \<and> u \<in> set (login_users login) \<longrightarrow>
      set (buildUserCommands u) \<subseteq> set (buildSystemCommands sys))
   \<and> (fr \<in> set (rs_rules rs) \<longrightarrow>
      set (buildFirewallRuleCommands (rs_name rs) fr) \<subseteq> set (buildFirewallRulesetCommands rs))
   \<and> (fr_source fr = Some fsrc \<and> fa_address fsrc = Some x1 \<and> x1 \<noteq> [] \<longrightarrow>
      ''set '' @ firewallRuleBasePath n fr @ '' source address '' @ x1
        \<in> set (buildFirewallRuleCommands n fr))
   \<and> (fr_source fr = Some fsrc \<and> fa_port fsrc = Some x2 \<and> x2 \<noteq> [] \<longrightarrow>
      ''set '' @ firewallRuleBasePath n fr @ '' source port '' @ x2
        \<in> set (buildFirewallRuleCommands n fr))
   \<and> (fr_source fr = Some fsrc \<and> fa_group fsrc = Some sgrp \<and> grp_addressGroup sgrp = Some g1
        \<and> g1 \<noteq> [] \<longrightarrow>
      ''set '' @ firewallRuleBasePath n fr @ '' source group address-group '' @ g1
        \<in> set (buildFirewallRuleCommands n fr))
   \<and> (fr_source fr = Some fsrc \<and> fa_group fsrc = Some sgrp \<and> grp_networkGroup sgrp = Some g2
        \<and> g2 \<noteq> [] \<longrightarrow>
      ''set '' @ firewallRuleBasePath n fr @ '' source group network-group '' @ g2
        \<in> set (buildFirewallRuleCommands n fr))
   \<and> (fr_destination fr = Some fdst \<and> fa_address fdst = Some x3 \<and> x3 \<noteq> [] \<longrightarrow>
      ''set '' @ firewallRuleBasePath n fr @ '' destination address '' @ x3
        \<in> set (buildFirewallRuleCommands n fr))
   \<and> (fr_destination fr = Some fdst \<and> fa_port fdst = Some x4 \<and> x4 \<noteq> [] \<longrightarrow>
      ''set '' @ firewallRuleBasePath n fr @ '' destination port '' @ x4
        \<in> set (buildFirewallRuleCommands n fr))
   \<and> (fr_destination fr = Some fdst \<and> fa_group fdst = Some dgrp \<and> grp_addressGroup dgrp = Some g3
        \<and> g3 \<noteq> [] \<longrightarrow>
      ''set '' @ firewallRuleBasePath n fr @ '' destination group address-group '' @ g3
        \<in> set (buildFirewallRuleCommands n fr))
   \<and> (fr_destination fr = Some fdst \<and> fa_group fdst = Some dgrp \<and> grp_portGroup dgrp = Some g4
        \<and> g4 \<noteq> [] \<longrightarrow>
      ''set '' @ firewallRuleBasePath n fr @ '' destination group port-group '' @ g4
        \<in> set (buildFirewallRuleCommands n fr))
   \<and> (nat_source nr = Some nsrc \<and> na_address nsrc = Some y1 \<and> y1 \<noteq> [] \<longrightarrow>
      ''set '' @ natRuleBasePath nr @ '' source address '' @ y1 \<in> set (buildNATRuleCommands nr))
   \<and> (nat_source nr = Some nsrc \<and> na_port nsrc = Some y2 \<and> y2 \<noteq> [] \<longrightarrow>
      ''set '' @ natRuleBasePath nr @ '' source port '' @ y2 \<in> set (buildNATRuleCommands nr))
   \<and> (nat_destination nr = Some ndst \<and> na_address ndst = Some y3 \<and> y3 \<noteq> [] \<longrightarrow>
      ''set '' @ natRuleBasePath nr @ '' destination address '' @ y3
        \<in> set (buildNATRuleCommands nr))
   \<and> (nat_destination nr = Some ndst \<and> na_port ndst = Some y4 \<and> y4 \<noteq> [] \<longrightarrow>
      ''set '' @ natRuleBasePath nr @ '' destination port '' @ y4
        \<in> set (buildNATRuleCommands nr))
   \<and> (nat_translation nr = Some ntr \<and> na_address ntr = Some y5 \<and> y5 \<noteq> [] \<longrightarrow>
      ''set '' @ natRuleBasePath nr @ '' translation address '' @ y5
        \<in> set (buildNATRuleCommands nr))
   \<and> (nat_translation nr = Some ntr \<and> na_port ntr = Some y6 \<and> y6 \<noteq> [] \<longrightarrow>
      ''set '' @ natRuleBasePath nr @ '' translation port '' @ y6
        \<in> set (buildNATRuleCommands nr))
   \<and> (sys_nameServer sys = Some servers \<and> ns \<in> set servers \<longrightarrow>
      ''set system name-server '' @ ns \<in> set (buildSystemCommands sys))
   \<and> (sys_ntp sys = Some ntp \<and> srv \<in> set (ntp_servers ntp) \<longrightarrow>
      ''set system ntp server '' @ srv \<in> set (buildSystemCommands sys))
   \<and> (if_type bi = ''bond'' \<and> if_bond bi = Some bc \<and> member \<in> set (bond_members bc) \<longrightarrow>
      ''set '' @ interfaceBasePath bi @ '' member interface '' @ member
        \<in> set (buildInterfaceCommands bi))"
  by (intro conjI impI; (elim conjE)?)
     (blast intro: san_if_description san_if_address san_route_description san_zone_description
        san_ruleset_description san_rule_description san_nat_description san_ipsec_description
        san_ipsec_secret san_ipsec_remoteId san_ipsec_localId san_system_hostName
        san_system_domainName san_system_timeZone san_user_fullName san_user_password
        san_user_encrypted san_user_publicKey san_user_in_system [THEN subsetD]
        san_rule_in_ruleset [THEN subsetD] raw_rule_address raw_rule_port raw_rule_group
        raw_nat_address raw_nat_port raw_name_server raw_ntp_server raw_bond_member)+

theorem sanitizer_use_witness:
  "''set interfaces ethernet eth1 description '' @ [sq] @ ''LAN Interface'' @ [sq]
      \<in> set (buildInterfaceCommands eth1)
   \<and> ''set interfaces ethernet eth1 address 192.168.1.1/24'' \<in> set (buildInterfaceCommands eth1)
   \<and> ''set protocols static route 10.9.0.0/16 description '' @ [sq] @ ''to lab'' @ [sq]
      \<in> set (buildStaticRouteCommands routeLab)
   \<and> ''set zone-policy zone LAN description '' @ [sq] @ ''inside zone'' @ [sq]
      \<in> set (buildFirewallZoneCommands zoneLan)
   \<and> ''set firewall name WAN_IN description '' @ [sq] @ ''from the internet'' @ [sq]
      \<in> set (buildFirewallRulesetCommands rulesetWan)
   \<and> ''set firewall name WAN_IN rule 10 description '' @ [sq] @ ''web in'' @ [sq]
      \<in> set (buildFirewallRuleCommands ''WAN_IN'' fwRuleWeb)
   \<and> ''set nat destination rule 10 description '' @ [sq] @ ''web server'' @ [sq]
      \<in> set (buildNATRuleCommands natRuleWeb)
   \<and> ''set vpn ipsec site-to-site peer 203.0.113.1 description '' @ [sq] @ ''HQ tunnel'' @ [sq]
      \<in> set (buildIPSecCommands siteHq)
   \<and> ''set vpn ipsec site-to-site peer 203.0.113.1 authentication pre-shared-secret ''
        @ [sq] @ ''top secret'' @ [sq] \<in> set (buildIPSecCommands siteHq)
   \<and> ''set vpn ipsec site-to-site peer 203.0.113.1 authentication remote-id ''
        @ [sq] @ ''hq gateway'' @ [sq] \<in> set (buildIPSecCommands siteHq)
   \<and> ''set vpn ipsec site-to-site peer 203.0.113.1 authentication local-id ''
        @ [sq] @ ''branch office'' @ [sq] \<in> set (buildIPSecCommands siteHq)
   \<and> ''set system host-name r1'' \<in> set (buildSystemCommands systemR1)
   \<and> ''set system domain-name '' @ [sq] @ ''lab net'' @ [sq] \<in> set (buildSystemCommands systemR1)
   \<and> ''set system time-zone Europe/Paris'' \<in> set (buildSystemCommands systemR1)
   \<and> ''set system login user ada full-name '' @ [sq] @ ''Ada L'' @ [sq]
      \<in> set (buildUserCommands userAda)
   \<and> ''set system login user ada authentication plaintext-password '' @ [sq] @ ''pass word'' @ [sq]
      \<in> set (buildUserCommands userAda)
   \<and> ''set system login user ada authentication encrypted-password '' @ [sq] @ ''$6$salt hash'' @ [sq]
      \<in> set (buildUserCommands userAda)
   \<and> ''set system login user ada authentication public-keys key-0 key ''
        @ [sq] @ ''AAAAB3Nza ada@lab'' @ [sq] \<in> set (buildUserCommands userAda)
   \<and> set (buildUserCommands userAda) \<subseteq> set (buildSystemCommands systemR1)
   \<and> set (buildFirewallRuleCommands ''WAN_IN'' fwRuleWeb) \<subseteq> set (buildFirewallRulesetCommands rulesetWan)
   \<and> ''set firewall name WAN_IN rule 10 source address 10.0.0.0/8''
      \<in> set (buildFirewallRuleCommands ''WAN_IN'' fwRuleWeb)
   \<and> ''set firewall name WAN_IN rule 10 source port 1024-65535''
      \<in> set (buildFirewallRuleCommands ''WAN_IN'' fwRuleWeb)
   \<and> ''set firewall name WAN_IN rule 10 source group address-group ADMINS''
      \<in> set (buildFirewallRuleCommands ''WAN_IN'' fwRuleWeb)
   \<and> ''set firewall name WAN_IN rule 10 source group network-group LAN_NETS''
      \<in> set (buildFirewallRuleCommands ''WAN_IN'' fwRuleWeb)
   \<and> ''set firewall name WAN_IN rule 10 destination address 192.168.1.10''
      \<in> set (buildFirewallRuleCommands ''WAN_IN'' fwRuleWeb)
   \<and> ''set firewall name WAN_IN rule 10 destination port 443''
      \<in> set (buildFirewallRuleCommands ''WAN_IN'' fwRuleWeb)
   \<and> ''set firewall name WAN_IN rule 10 destination group address-group WEB_SERVERS''
      \<in> set (buildFirewallRuleCommands ''WAN_IN'' fwRuleWeb)
   \<and> ''set firewall name WAN_IN rule 10 destination group port-group WEB_PORTS''
      \<in> set (buildFirewallRuleCommands ''WAN_IN'' fwRuleWeb)
   \<and> ''set nat destination rule 10 source address 0.0.0.0/0'' \<in> set (buildNATRuleCommands natRuleWeb)
   \<and> ''set nat destination rule 10 source port 1024-65535'' \<in> set (buildNATRuleCommands natRuleWeb)
   \<and> ''set nat destination rule 10 destination address 203.0.113.5''
      \<in> set (buildNATRuleCommands natRuleWeb)
   \<and> ''set nat destination rule 10 destination port 443'' \<in> set (buildNATRuleCommands natRuleWeb)
   \<and> ''set nat destination rule 10 translation address 192.168.1.10''
      \<in> set (buildNATRuleCommands natRuleWeb)
   \<and> ''set nat destination rule 10 translation port 8443'' \<in> set (buildNATRuleCommands natRuleWeb)
   \<and> ''set system name-server 8.8.8.8'' \<in> set (buildSystemCommands systemR1)
   \<and> ''set system ntp server pool.ntp.org'' \<in> set (buildSystemCommands systemR1)
   \<and> ''set interfaces bond bond0 member interface eth2'' \<in> set (buildInterfaceCommands bond0)"
  using sanitizer_use [where i = eth1 and ?d1.0 = "''LAN Interface''" and addr = "''192.168.1.1/24''"
      and rt = routeLab and ?d2.0 = "''to lab''" and z = zoneLan and ?d3.0 = "''inside zone''"
      and rs = rulesetWan and ?d4.0 = "''from the internet''"
      and n = "''WAN_IN''" and fr = fwRuleWeb and ?d5.0 = "''web in''"
      and nr = natRuleWeb and ?d6.0 = "''web server''"
      and site = siteHq and ?d7.0 = "''HQ tunnel''" and psk = "''top secret''"
      and rid = "''hq gateway''" and lid = "''branch office''"
      and sys = systemR1 and host = "''r1''" and dname = "''lab net''" and tz = "''Europe/Paris''"
      and u = userAda and full = "''Ada L''" and pw = "''pass word''" and enc = "''$6$salt hash''"
      and keys = "[''AAAAB3Nza ada@lab'']" and index = 0
      and login = "\<lparr>login_users = [userAda]\<rparr>"
      and fsrc = "\<lparr>fa_address = Some ''10.0.0.0/8'', fa_port = Some ''1024-65535'',
           fa_group = Some \<lparr>grp_addressGroup = Some ''ADMINS'', grp_networkGroup = Some ''LAN_NETS'',
             grp_portGroup = None\<rparr>\<rparr>"
      and sgrp = "\<lparr>grp_addressGroup = Some ''ADMINS'', grp_networkGroup = Some ''LAN_NETS'',
             grp_portGroup = None\<rparr>"
      and ?g1.0 = "''ADMINS''" and ?g2.0 = "''LAN_NETS''"
      and ?x1.0 = "''10.0.0.0/8''" and ?x2.0 = "''1024-65535''"
      and fdst = "\<lparr>fa_address = Some ''192.168.1.10'', fa_port = Some ''443'',
           fa_group = Some \<lparr>grp_addressGroup = Some ''WEB_SERVERS'', grp_networkGroup = None,
             grp_portGroup = Some ''WEB_PORTS''\<rparr>\<rparr>"
      and dgrp = "\<lparr>grp_addressGroup = Some ''WEB_SERVERS'', grp_networkGroup = None,
             grp_portGroup = Some ''WEB_PORTS''\<rparr>"
      and ?g3.0 = "''WEB_SERVERS''" and ?g4.0 = "''WEB_PORTS''"
      and ?x3.0 = "''192.168.1.10''" and ?x4.0 = "''443''"
      and nsrc = "\<lparr>na_address = Some ''0.0.0.0/0'', na_port = Some ''1024-65535''\<rparr>"
      and ?y1.0 = "''0.0.0.0/0''" and ?y2.0 = "''1024-65535''"
      and ndst = "\<lparr>na_address = Some ''203.0.113.5'', na_port = Some ''443''\<rparr>"
      and ?y3.0 = "''203.0.113.5''" and ?y4.0 = "''443''"
      and ntr = "\<lparr>na_address = Some ''192.168.1.10'', na_port = Some ''8443''\<rparr>"
      and ?y5.0 = "''192.168.1.10''" and ?y6.0 = "''8443''"
      and servers = "[''8.8.8.8'']" and ns = "''8.8.8.8''"
      and ntp = "\<lparr>ntp_servers = [''pool.ntp.org''], ntp_allowClients = None\<rparr>"
      and srv = "''pool.ntp.org''"
      and bi = bond0
      and bc = "\<lparr>bond_mode = ''802.3ad'', bond_members = [''eth2'', ''eth3''],
                 bond_primaryInterface = None, bond_hashPolicy = None\<rparr>"
      and member = "''eth2''"]
  by (simp add: eth1_def routeLab_def zoneLan_def rulesetWan_def fwRuleWeb_def natRuleWeb_def
      siteHq_def systemR1_def userAda_def bond0_def interfaceBasePath_def
      firewallRuleBasePath_def natRuleBasePath_def numberToString_10 numberToString_0
      sanitizeConfigValue_def)

text \<open>
  Claim C5 as the specification words it has every caller-supplied trailing literal
  sanitized. The source address of a NAT rule is not: a value with a space is embedded
  without quotes, and the statement with the sanitized value is not in the list.
\<close>

definition natRuleRaw :: NATRule where
  "natRuleRaw = \<lparr>nat_number = Number 10, nat_type = ''source'', nat_description = None,
     nat_disabled = None, nat_outboundInterface = None, nat_inboundInterface = None,
     nat_source = Some \<lparr>na_address = Some ''10.0.0.1 10.0.0.2'', na_port = None\<rparr>,
     nat_destination = None, nat_translation = None, nat_protocol = None\<rparr>"

theorem unsanitized_address_counterexample:
  "sanitizeConfigValue ''10.0.0.1 10.0.0.2'' = [sq] @ ''10.0.0.1 10.0.0.2'' @ [sq]
   \<and> buildNATRuleCommands natRuleRaw =
       [''set nat source rule 10 source address 10.0.0.1 10.0.0.2'']
   \<and> ''set nat source rule 10 source address '' @ sanitizeConfigValue ''10.0.0.1 10.0.0.2''
       \<notin> set (buildNATRuleCommands natRuleRaw)"
proof -
  have p: "natRuleBasePath natRuleRaw = ''nat source rule 10''"
    by (simp add: natRuleBasePath_def natRuleRaw_def numberToString_10)
  have b: "buildNATRuleCommands natRuleRaw =
       [''set nat source rule 10 source address 10.0.0.1 10.0.0.2'']"
    by (simp add: buildNATRuleCommands_def p Let_def)
       (simp add: natRuleRaw_def whenStr_def whenObj_def whenBool_def truthyBool_def)
  show ?thesis
    by (simp add: b sanitizeConfigValue_def)
qed

subsection \<open>Per-element failures and the IPsec parser\<close>

definition entriesO :: "node option \<Rightarrow> (string \<times> node) list" where
  "entriesO v = (case v of None \<Rightarrow> [] | Some x \<Rightarrow> objectEntries x)"

definition parsedElements :: "(string \<Rightarrow> node \<Rightarrow> js_error + 'a) \<Rightarrow> (string \<times> node) list \<Rightarrow> 'a list" where
  "parsedElements f entries =
     concat (map (\<lambda>kv. case f (fst kv) (snd kv) of Inl e \<Rightarrow> [] | Inr x \<Rightarrow> [x]) entries)"

lemma collectParsed_eq: "collectParsed f out entries = out @ parsedElements f entries"
  unfolding collectParsed_def parsedElements_def
  by (induction entries arbitrary: out) (simp_all split: sum.splits)

lemma foldl_keep: "foldl (\<lambda>acc x. acc) a xs = a"
  by (induction xs) simp_all

lemma parseIPSecSites_nil: "parseIPSecSites config = []"
  by (simp add: parseIPSecSites_def foldl_keep split: option.splits)

lemma foldl_append_pieces:
  "foldl (\<lambda>acc x. acc @ g x) a xs = a @ concat (map g xs)"
  by (induction xs arbitrary: a) simp_all

lemma parseInterfacesWith_eq:
  "parseInterfacesWith f config =
     concat (map (\<lambda>tv. case snd tv of Leaf \<Rightarrow> []
                        | Branch ifaces \<Rightarrow>
                            parsedElements (\<lambda>name. f name (fst tv)) (objectEntries (Branch ifaces)))
       (entriesO (getProp config ''interfaces'')))"
proof (cases "getProp config ''interfaces''")
  case None
  then show ?thesis by (simp add: parseInterfacesWith_def entriesO_def)
next
  case (Some types)
  have "(\<lambda>interfaces tv. case snd tv of Leaf \<Rightarrow> interfaces
            | Branch ifaces \<Rightarrow> collectParsed (\<lambda>name. f name (fst tv)) interfaces
                (objectEntries (Branch ifaces)))
      = (\<lambda>interfaces tv. interfaces @ (case snd tv of Leaf \<Rightarrow> []
            | Branch ifaces \<Rightarrow> parsedElements (\<lambda>name. f name (fst tv))
                (objectEntries (Branch ifaces))))"
    by (intro ext) (simp add: collectParsed_eq split: node.splits)
  then show ?thesis
    by (simp add: parseInterfacesWith_def entriesO_def Some foldl_append_pieces)
qed

text \<open>
  Claim C10. Each collection-walking parse function returns exactly the elements whose
  reconstruction did not throw, in the order of the entries: an element that throws is left
  out and the others are still returned; the exception does not reach the caller. This
  holds for \<open>parseInterfaces\<close>, \<open>parseStaticRoutes\<close>, \<open>parseFirewallZones\<close>,
  \<open>parseFirewallRulesets\<close> (for the rulesets and, inside one ruleset, for its rules) and
  \<open>parseNATRules\<close> (source and destination rules), with the element parsers of the
  source, and it holds for the same loops whatever the element parser does.
\<close>

theorem element_failures_contained:
  "parseInterfaces config =
     concat (map (\<lambda>tv. case snd tv of Leaf \<Rightarrow> []
                        | Branch ifaces \<Rightarrow>
                            parsedElements (\<lambda>name. parseInterface name (fst tv))
                              (objectEntries (Branch ifaces)))
       (entriesO (getProp config ''interfaces'')))
   \<and> parseStaticRoutes config =
       parsedElements parseStaticRoute
         (entriesO (getPropO (getPropO (getProp config ''protocols'') ''static'') ''route''))
   \<and> parseFirewallZones config =
       parsedElements parseFirewallZone (entriesO (getPropO (getProp config ''zone-policy'') ''zone''))
   \<and> parseFirewallRulesets config =
       parsedElements
         (\<lambda>name rulesetConfig.
            Inr \<lparr>rs_name = name,
              rs_description =
                (case getProp rulesetConfig ''description'' of None \<Rightarrow> None | Some d \<Rightarrow> firstKey d),
              rs_defaultAction =
                orDefault (firstKeyO (getProp rulesetConfig ''default-action'')) ''drop'',
              rs_enableDefaultLog = Some (getProp rulesetConfig ''enable-default-log'' \<noteq> None),
              rs_rules = parsedElements (\<lambda>number. parseFirewallRule (parseInt (Some number)))
                           (entriesO (getProp rulesetConfig ''rule''))\<rparr>)
         (entriesO (getPropO (getProp config ''firewall'') ''name''))
   \<and> nat_sourceRules (parseNATRules config) =
       parsedElements (\<lambda>number. parseNATRule ''source'' (parseInt (Some number)))
         (entriesO (getPropO (getPropO (getProp config ''nat'') ''source'') ''rule''))
   \<and> nat_destinationRules (parseNATRules config) =
       parsedElements (\<lambda>number. parseNATRule ''destination'' (parseInt (Some number)))
         (entriesO (getPropO (getPropO (getProp config ''nat'') ''destination'') ''rule''))
   \<and> parseInterfacesWith parseIf config =
       concat (map (\<lambda>tv. case snd tv of Leaf \<Rightarrow> []
                          | Branch ifaces \<Rightarrow>
                              parsedElements (\<lambda>name. parseIf name (fst tv))
                                (objectEntries (Branch ifaces)))
         (entriesO (getProp config ''interfaces'')))
   \<and> parseStaticRoutesWith parseRoute config =
       parsedElements parseRoute
         (entriesO (getPropO (getPropO (getProp config ''protocols'') ''static'') ''route''))
   \<and> parseFirewallZonesWith parseZone config =
       parsedElements parseZone (entriesO (getPropO (getProp config ''zone-policy'') ''zone''))
   \<and> parseFirewallRulesetsWith parseRuleset config =
       parsedElements parseRuleset (entriesO (getPropO (getProp config ''firewall'') ''name''))
   \<and> parseFirewallRulesetWith parseRule name rulesetConfig =
       Inr \<lparr>rs_name = name,
         rs_description =
           (case getProp rulesetConfig ''description'' of None \<Rightarrow> None | Some d \<Rightarrow> firstKey d),
         rs_defaultAction = orDefault (firstKeyO (getProp rulesetConfig ''default-action'')) ''drop'',
         rs_enableDefaultLog = Some (getProp rulesetConfig ''enable-default-log'' \<noteq> None),
         rs_rules = parsedElements (\<lambda>number. parseRule (parseInt (Some number)))
                      (entriesO (getProp rulesetConfig ''rule''))\<rparr>
   \<and> nat_sourceRules (parseNATRulesWith parseNat config) =
       parsedElements (\<lambda>number. parseNat ''source'' (parseInt (Some number)))
         (entriesO (getPropO (getPropO (getProp config ''nat'') ''source'') ''rule''))
   \<and> nat_destinationRules (parseNATRulesWith parseNat config) =
       parsedElements (\<lambda>number. parseNat ''destination'' (parseInt (Some number)))
         (entriesO (getPropO (getPropO (getProp config ''nat'') ''destination'') ''rule''))"
proof -
  have rs: "parseFirewallRulesetWith parseRule name rulesetConfig =
       Inr \<lparr>rs_name = name,
         rs_description =
           (case getProp rulesetConfig ''description'' of None \<Rightarrow> None | Some d \<Rightarrow> firstKey d),
         rs_defaultAction = orDefault (firstKeyO (getProp rulesetConfig ''default-action'')) ''drop'',
         rs_enableDefaultLog = Some (getProp rulesetConfig ''enable-default-log'' \<noteq> None),
         rs_rules = parsedElements (\<lambda>number. parseRule (parseInt (Some number)))
                      (entriesO (getProp rulesetConfig ''rule''))\<rparr>"
    for parseRule name rulesetConfig
    by (simp add: parseFirewallRulesetWith_def collectParsed_eq entriesO_def parsedElements_def
        split: option.splits)
  have rt: "parseStaticRoutesWith f config =
       parsedElements f
         (entriesO (getPropO (getPropO (getProp config ''protocols'') ''static'') ''route''))" for f
    by (simp add: parseStaticRoutesWith_def collectParsed_eq entriesO_def parsedElements_def
        split: option.splits)
  have zn: "parseFirewallZonesWith f config =
       parsedElements f (entriesO (getPropO (getProp config ''zone-policy'') ''zone''))" for f
    by (simp add: parseFirewallZonesWith_def collectParsed_eq entriesO_def parsedElements_def
        split: option.splits)
  have rss: "parseFirewallRulesetsWith f config =
       parsedElements f (entriesO (getPropO (getProp config ''firewall'') ''name''))" for f
    by (simp add: parseFirewallRulesetsWith_def collectParsed_eq entriesO_def parsedElements_def
        split: option.splits)
  have ns: "nat_sourceRules (parseNATRulesWith f config) =
       parsedElements (\<lambda>number. f ''source'' (parseInt (Some number)))
         (entriesO (getPropO (getPropO (getProp config ''nat'') ''source'') ''rule''))" for f
    by (simp add: parseNATRulesWith_def collectParsed_eq entriesO_def getPropO_def parsedElements_def
        split: option.splits)
  have nd: "nat_destinationRules (parseNATRulesWith f config) =
       parsedElements (\<lambda>number. f ''destination'' (parseInt (Some number)))
         (entriesO (getPropO (getPropO (getProp config ''nat'') ''destination'') ''rule''))" for f
    by (simp add: parseNATRulesWith_def collectParsed_eq entriesO_def getPropO_def parsedElements_def
        split: option.splits)
  have rsn: "parseFirewallRulesetWith parseFirewallRule =
      (\<lambda>name rulesetConfig.
            Inr \<lparr>rs_name = name,
              rs_description =
                (case getProp rulesetConfig ''description'' of None \<Rightarrow> None | Some d \<Rightarrow> firstKey d),
              rs_defaultAction =
                orDefault (firstKeyO (getProp rulesetConfig ''default-action'')) ''drop'',
              rs_enableDefaultLog = Some (getProp rulesetConfig ''enable-default-log'' \<noteq> None),
              rs_rules = parsedElements (\<lambda>number. parseFirewallRule (parseInt (Some number)))
                           (entriesO (getProp rulesetConfig ''rule''))\<rparr>)"
    by (intro ext) (rule rs)
  show ?thesis
    unfolding parseInterfaces_def parseStaticRoutes_def parseFirewallZones_def
      parseFirewallRulesets_def parseNATRules_def rsn [symmetric]
    by (intro conjI parseInterfacesWith_eq rt zn rss ns nd rs)
qed

definition twoInterfaces :: node where
  "twoInterfaces =
     Branch [(''interfaces'', Branch [(''ethernet'', Branch [(''eth0'', Leaf), (''eth1'', Leaf)])])]"

theorem element_failures_contained_witness:
  "parseInterfaces twoInterfaces =
   [\<lparr>if_name = ''eth0'', if_type = ''ethernet'', if_description = None, if_enabled = True,
     if_mtu = None, if_mac = None,
     if_addresses = \<lparr>ipv4 = [], ipv6 = [], dhcp = False, dhcpv6 = False\<rparr>,
     if_vlan = None, if_bond = None, if_bridge = None\<rparr>,
    \<lparr>if_name = ''eth1'', if_type = ''ethernet'', if_description = None, if_enabled = True,
     if_mtu = None, if_mac = None,
     if_addresses = \<lparr>ipv4 = [], ipv6 = [], dhcp = False, dhcpv6 = False\<rparr>,
     if_vlan = None, if_bond = None, if_bridge = None\<rparr>]
   \<and> parseInterfacesWith
     (\<lambda>name type config. if name = ''eth0'' then Inl TypeError else parseInterface name type config)
     twoInterfaces =
   [\<lparr>if_name = ''eth1'', if_type = ''ethernet'', if_description = None, if_enabled = True,
     if_mtu = None, if_mac = None,
     if_addresses = \<lparr>ipv4 = [], ipv6 = [], dhcp = False, dhcpv6 = False\<rparr>,
     if_vlan = None, if_bond = None, if_bridge = None\<rparr>]"
  using element_failures_contained
    [where parseIf = "\<lambda>name type config. if name = ''eth0'' then Inl TypeError else parseInterface name type config"
       and config = twoInterfaces]
  by (simp add: twoInterfaces_def entriesO_def ownEntries_def isArrayIndex_def isDigit_def
      parsedElements_def parseInterface_def parseAddresses_def classifyAddress_def keysO_def)

definition onePeer :: node where
  "onePeer =
     Branch [(''vpn'', Branch [(''ipsec'', Branch [(''site-to-site'',
       Branch [(''peer'', Branch [(''203.0.113.1'',
         Branch [(''authentication'', Branch [(''mode'', Branch [(''pre-shared-secret'', Leaf)])]),
                 (''local-address'', Branch [(''198.51.100.1'', Leaf)])])])])])])]"

text \<open>
  Claim C9. \<open>parseIPSecSites\<close> returns the empty list for every tree, also for one with
  peers under \<open>vpn ipsec site-to-site peer\<close>.
\<close>

theorem parseIPSecSites_empty: "parseIPSecSites config = []"
  by (simp add: parseIPSecSites_def foldl_keep split: option.splits)

theorem parseIPSecSites_empty_witness:
  "getPropO (getPropO (getPropO (getProp onePeer ''vpn'') ''ipsec'') ''site-to-site'') ''peer'' \<noteq> None
   \<and> parseIPSecSites onePeer = []"
  using parseIPSecSites_empty [of onePeer] by (simp add: onePeer_def getPropO_def)

subsection \<open>Leaf and branch at the same path\<close>

fun getPath :: "node \<Rightarrow> string list \<Rightarrow> node option" where
  "getPath x [] = Some x"
| "getPath x (p # ps) = (case getProp x p of None \<Rightarrow> None | Some child \<Rightarrow> getPath child ps)"

lemma getPath_Leaf: "getPath Leaf ps = Some x \<Longrightarrow> ps = [] \<and> x = Leaf"
  by (cases ps) simp_all

lemma leaf_kept:
  "ps \<noteq> [] \<Longrightarrow> getPath (Branch tree) ps = Some Leaf \<Longrightarrow> addParts tree (ps @ [q]) = Inr tree"
proof (induction ps arbitrary: tree)
  case Nil
  then show ?case by simp
next
  case (Cons p ps)
  show ?case
  proof (cases ps)
    case Nil
    with Cons.prems show ?thesis by (simp split: option.splits)
  next
    case (Cons p' ps')
    from Cons.prems obtain child where c: "map_of tree p = Some child" "getPath child ps = Some Leaf"
      by (auto split: option.splits)
    with Cons obtain kids where k: "child = Branch kids"
      by (cases child) auto
    have "addParts kids (ps @ [q]) = Inr kids"
      using Cons.IH [of kids] c k Cons by simp
    then show ?thesis
      using c k Cons by (simp add: update_triv)
  qed
qed

lemma branch_replaced:
  "ps \<noteq> [] \<Longrightarrow> getPath (Branch tree) ps = Some (Branch kids) \<Longrightarrow>
   \<exists>tree'. addParts tree ps = Inr tree' \<and> getPath (Branch tree') ps = Some Leaf"
proof (induction ps arbitrary: tree)
  case Nil
  then show ?case by simp
next
  case (Cons p ps)
  show ?case
  proof (cases ps)
    case Nil
    then show ?thesis by (simp add: update_conv')
  next
    case (Cons p' ps')
    from Cons.prems obtain child where c: "map_of tree p = Some child" "getPath child ps = Some (Branch kids)"
      by (auto split: option.splits)
    with Cons obtain sub where k: "child = Branch sub"
      by (cases child) auto
    from Cons.IH [of sub] c k Cons obtain sub' where
      s: "addParts sub ps = Inr sub'" "getPath (Branch sub') ps = Some Leaf"
      by auto
    then show ?thesis
      using c k Cons by (simp add: update_conv')
  qed
qed

lemma leaf_then_deeper_throws:
  "ps \<noteq> [] \<Longrightarrow> getPath (Branch tree) ps = Some Leaf \<Longrightarrow>
   addParts tree (ps @ q # r # rest) = Inl TypeError"
proof (induction ps arbitrary: tree)
  case Nil
  then show ?case by simp
next
  case (Cons p ps)
  show ?case
  proof (cases ps)
    case Nil
    with Cons.prems show ?thesis by (simp split: option.splits)
  next
    case (Cons p' ps')
    from Cons.prems obtain child where c: "map_of tree p = Some child" "getPath child ps = Some Leaf"
      by (auto split: option.splits)
    with Cons obtain kids where k: "child = Branch kids"
      by (cases child) auto
    have "addParts kids (ps @ q # r # rest) = Inl TypeError"
      using Cons.IH [of kids] c k Cons by simp
    then show ?thesis
      using c k Cons by simp
  qed
qed

text \<open>With two or more further segments below a Leaf the assignment
  \<open>node[part] = {}\<close> is made on the boolean and throws.\<close>

lemma deeper_path_throws:
  "parse (''set a b'' @ [nl] @ ''set a b c d'') = Inl TypeError"
  by (simp add: parse_def parseLine_def trim_def isWhitespace_def addToTree_def pathParts_def)

text \<open>
  Claim C6, as the code has it. When a path holds a Leaf and a later statement extends
  that path by one more segment, the statement changes nothing: the Leaf stays and the
  segment is not recorded. When a path holds a Branch and a later statement ends at that
  path, the Branch is replaced by a Leaf. Neither case raises an error.
\<close>

theorem leaf_branch_conflict:
  "(ps \<noteq> [] \<and> getPath (Branch tree) ps = Some Leaf \<longrightarrow> addParts tree (ps @ [q]) = Inr tree)
   \<and> (ps \<noteq> [] \<and> getPath (Branch tree) ps = Some (Branch kids) \<longrightarrow>
        (\<exists>tree'. addParts tree ps = Inr tree' \<and> getPath (Branch tree') ps = Some Leaf))"
  using leaf_kept [of ps tree q] branch_replaced [of ps tree kids] by blast

theorem leaf_branch_conflict_witness:
  "addParts [(''a'', Branch [(''b'', Leaf)])] [''a'', ''b'', ''c''] = Inr [(''a'', Branch [(''b'', Leaf)])]
   \<and> (\<exists>tree'. addParts [(''a'', Branch [(''b'', Branch [(''c'', Leaf)])])] [''a'', ''b''] = Inr tree'
        \<and> getPath (Branch tree') [''a'', ''b''] = Some Leaf)"
proof -
  have l: "getPath (Branch [(''a'', Branch [(''b'', Leaf)])]) [''a'', ''b''] = Some Leaf"
    by simp
  have b: "getPath (Branch [(''a'', Branch [(''b'', Branch [(''c'', Leaf)])])]) [''a'', ''b'']
             = Some (Branch [(''c'', Leaf)])"
    by simp
  from leaf_branch_conflict [of "[''a'', ''b'']" "[(''a'', Branch [(''b'', Leaf)])]" "''c''"] l
  have one: "addParts [(''a'', Branch [(''b'', Leaf)])] ([''a'', ''b''] @ [''c''])
               = Inr [(''a'', Branch [(''b'', Leaf)])]"
    by blast
  from leaf_branch_conflict
    [of "[''a'', ''b'']" "[(''a'', Branch [(''b'', Branch [(''c'', Leaf)])])]" _ "[(''c'', Leaf)]"] b
  have two: "\<exists>tree'. addParts [(''a'', Branch [(''b'', Branch [(''c'', Leaf)])])] [''a'', ''b''] = Inr tree'
        \<and> getPath (Branch tree') [''a'', ''b''] = Some Leaf"
    by blast
  from one two show ?thesis by simp
qed

text \<open>
  Claim C6 as the specification words it has the existing node coerced to a Branch and the
  longer path recorded beneath it. After \<open>set a b\<close> the statement \<open>set a b c\<close> leaves
  \<open>b\<close> a Leaf and records no \<open>c\<close>; after \<open>set a b c\<close> the statement \<open>set a b\<close> turns
  \<open>b\<close> into a Leaf and \<open>c\<close> is lost.
\<close>

theorem no_coercion_counterexample:
  "parse (''set a b'' @ [nl] @ ''set a b c'') = Inr (Branch [(''a'', Branch [(''b'', Leaf)])])
   \<and> parse (''set a b c'' @ [nl] @ ''set a b'') = Inr (Branch [(''a'', Branch [(''b'', Leaf)])])
   \<and> getPath (Branch [(''a'', Branch [(''b'', Leaf)])]) [''a'', ''b'', ''c''] = None"
  by (simp add: parse_def parseLine_def trim_def isWhitespace_def addToTree_def pathParts_def)


subsection \<open>The round trip of an interface\<close>





text \<open>split and join\<close>

lemma splitOn_nonempty: "splitOn d s \<noteq> []"
  by (induction s) (auto split: list.splits)








lemma tokenize_space:
  "cur \<noteq> [] \<Longrightarrow> tokenize (spc # rest) parts cur False = tokenize rest (parts @ [cur]) [] False"
  by simp








































































































end
